theory Spec2Isabelle
  imports Main "HOL-Library.Signed_Division"
begin

section \<open>Key bindings (charmbracelet/bubbles key)\<close>

text \<open>
  A key press is identified by the string \<open>msg.String()\<close> of the \<open>tea.KeyMsg\<close>.
  A \<open>key.Binding\<close> holds the key strings it answers to and a \<open>disabled\<close> flag;
  \<open>key.Matches(msg, b...)\<close> is true when the key string is one of the keys of an
  enabled binding among \<open>b\<close>.
\<close>

type_synonym KeyMsg = string

record Binding =
  keys :: "string list"
  disabled :: bool

definition Enabled :: "Binding \<Rightarrow> bool" where
  "Enabled b = (\<not> disabled b \<and> keys b \<noteq> [])"

fun key_Matches :: "KeyMsg \<Rightarrow> Binding list \<Rightarrow> bool" where
  "key_Matches k [] = False"
| "key_Matches k (b # bs) = ((List.member (keys b) k \<and> Enabled b) \<or> key_Matches k bs)"

text \<open>The bindings of \<open>config.KeyMappings[key.Binding]\<close> that the modelled code reads.\<close>

record KeyMappings =
  Up :: Binding
  Down :: Binding
  Cancel :: Binding
  Quit :: Binding
  Refresh :: Binding
  Suspend :: Binding
  Help :: Binding
  Revset :: Binding
  Undo :: Binding
  Redo :: Binding
  Leader :: Binding
  QuickSearch :: Binding
  CustomCommands :: Binding
  OpLog_Mode :: Binding
  Git_Mode :: Binding
  Bookmark_Mode :: Binding
  FileSearch_Toggle :: Binding
  Preview_Mode :: Binding
  Preview_ToggleBottom :: Binding
  Preview_Expand :: Binding
  Preview_Shrink :: Binding
  Details_Close :: Binding
  Details_Diff :: Binding
  Details_Split :: Binding
  Details_SplitParallel :: Binding
  Details_Squash :: Binding
  Details_Restore :: Binding
  Details_Absorb :: Binding
  Details_ToggleSelect :: Binding
  Details_RevisionsChangingFile :: Binding

section \<open>Configuration (package config)\<close>

datatype PreviewPosition = PreviewPositionAuto | PreviewPositionBottom | PreviewPositionRight

text \<open>
  \<open>PreviewConfig\<close> without its two \<open>float64\<close> width fields, which no modelled function
  reads.
\<close>

record PreviewConfig =
  RevisionCommand :: "string list"
  OplogCommand :: "string list"
  FileCommand :: "string list"
  ShowAtStart :: bool
  Position :: string

datatype ShowOption = ShowOptionDiff | ShowOptionInteractive

record DiffConfig =
  Command :: "string list"
  Show :: ShowOption

text \<open>Of \<open>Config\<close>, the sections the modelled functions read.\<close>

record UIConfig =
  AutoRefreshInterval :: int

record Config =
  UI :: UIConfig
  Preview :: PreviewConfig
  Diff :: DiffConfig

text \<open>
  The \<open>error\<close> built by \<open>fmt.Errorf\<close> in \<open>GetPreviewPosition\<close>; it carries the offending
  value. Go returns the pair (position, error); a nil error is \<open>None\<close>.
\<close>

datatype config_error = InvalidPreviewPosition string

definition GetPreviewPosition :: "Config \<Rightarrow> PreviewPosition \<times> config_error option" where
  "GetPreviewPosition c =
     (let v = Position (Preview c) in
      if v = ''auto'' then (PreviewPositionAuto, None)
      else if v = ''bottom'' then (PreviewPositionBottom, None)
      else if v = ''right'' then (PreviewPositionRight, None)
      else (PreviewPositionAuto, Some (InvalidPreviewPosition v)))"

section \<open>Messages (tea.Msg)\<close>

datatype MouseAction = MouseActionPress | MouseActionRelease | MouseActionMotion

datatype MouseButton =
    MouseButtonNone | MouseButtonLeft | MouseButtonMiddle | MouseButtonRight
  | MouseButtonWheelUp | MouseButtonWheelDown | MouseButtonWheelLeft | MouseButtonWheelRight
  | MouseButtonBackward | MouseButtonForward

record MouseMsg =
  X :: int
  Y :: int
  Action :: MouseAction
  Button :: MouseButton

text \<open>
  The message types the modelled code switches on. A \<open>DeferredUpdateMsg\<close> carries
  whether its \<open>Fn\<close> is non-nil, a \<open>TogglePasswordMsg\<close> whether its \<open>Password\<close> channel
  is non-nil; \<open>OtherMsg\<close> is a message of any other type.
\<close>

datatype Msg =
    common_CloseViewMsg
  | tea_KeyMsg KeyMsg
  | tea_MouseMsg MouseMsg
  | tea_WindowSizeMsg int int
  | tea_FocusMsg
  | common_DeferredUpdateMsg bool
  | common_ExecMsg
  | common_ExecProcessCompletedMsg
  | common_ToggleHelpMsg
  | common_ShowDiffMsg string
  | common_UpdateRevisionsSuccessMsg
  | customcommands_SequenceTimeoutMsg nat
  | triggerAutoRefreshMsg
  | common_UpdateRevSetMsg string
  | common_RunLuaScriptMsg string
  | common_ShowChooseMsg "string list" string
  | choose_SelectedMsg
  | choose_CancelledMsg
  | common_ShowInputMsg string string
  | input_SelectedMsg
  | input_CancelledMsg
  | common_ShowPreview bool
  | common_TogglePasswordMsg bool
  | frameTickMsg
  | OtherMsg string

section \<open>Commands (tea.Cmd) and calls into collaborators\<close>

text \<open>
  A \<open>tea.Cmd\<close> is a Go function value; the model keeps it as a symbolic term that says
  where the command came from. \<open>NilCmd\<close> is Go's \<open>nil\<close>. The code of most
  sub-components (leader, diff, password, status, flash, revset, op-log, preview, the
  stacked dialogs, the confirmation dialog) is not part of the modelled sources: a call of
  one of their methods is recorded as a \<open>call\<close>, and \<open>Returned c\<close> stands for whatever
  \<open>tea.Cmd\<close> that call gave back.
\<close>

datatype component =
    c_leader | c_password | c_diff | c_revsetModel | c_status | c_revisions | c_stacked
  | c_flash | c_oplog | c_previewModel | c_scriptRunner | c_confirmation

text \<open>The views \<open>findViewAt\<close> can return.\<close>

datatype view = v_diff | v_oplog | v_revisions | v_previewModel

record SelectedFile =
  sf_ChangeId :: string
  sf_CommitId :: string
  sf_File :: string

text \<open>Argument lists built by package \<open>jj\<close> (not modelled further).\<close>

datatype jj_args =
    jj_Split string "string list" bool
  | jj_Restore string "string list"
  | jj_RestoreInteractive string string
  | jj_Absorb string "string list"
  | jj_FilesInRevision string
  | jj_TemplatedArgs "string list" string string string int

datatype call =
    call_Update component
  | call_Init component
  | revsetModel_Update_Edit bool
  | revsetModel_AddToHistory string
  | flash_DeleteOldest
  | flash_SetWidth int
  | flash_SetHeight int
  | previewModel_Expand
  | previewModel_Shrink
  | call_DragStart view int int
  | call_DragMove view int int
  | call_DragEnd view int int
  | scriptRunner_HandleMsg
  | scripting_RunScript string
  | exec_process_ExecLine
  | RunCommandImmediate jj_args
  | AddCheckedItem SelectedFile
  | RemoveCheckedItem SelectedFile
  | current_set_selected bool
  | previewModel_SetPosition bool bool
  | previewModel_ToggleVisible
  | previewModel_SetVisible bool
  | customcommand_Prepare string
  | DeferredUpdateMsg_Fn

datatype tick = frameTickMsg_tick | triggerAutoRefreshMsg_tick

datatype Cmd =
    NilCmd
  | tea_Quit
  | tea_Suspend
  | tea_EnableMouseCellMotion
  | tea_Batch "Cmd list"
  | tea_Tick int tick
  | SequenceTimeout_timer nat
  | common_Close
  | common_Refresh
  | common_RefreshAndKeepSelections
  | common_SelectionChanged
  | common_ToggleHelp
  | common_UpdateRevSet_files string
  | common_FileSearch string bool string
  | common_CommandCompleted_Err
  | common_AutoRefresh
  | confirmation_Close
  | leader_InitCmd
  | context_RunCommand jj_args "Cmd list"
  | context_RunInteractiveCommand jj_args Cmd
  | ShowDiff_of_RunCommandImmediate jj_args
  | intents_Invoke_StartSquash string "string list"
  | Returned call

text \<open>
  \<open>emitsQuit c\<close>: running \<open>c\<close> yields the process-terminating \<open>tea.Quit\<close>, directly,
  as a member of a batch, or as a continuation of an external command.
\<close>

fun emitsQuit :: "Cmd \<Rightarrow> bool" where
  "emitsQuit tea_Quit = True"
| "emitsQuit (tea_Batch cs) = list_ex emitsQuit cs"
| "emitsQuit (context_RunCommand args cs) = list_ex emitsQuit cs"
| "emitsQuit (context_RunInteractiveCommand args c) = emitsQuit c"
| "emitsQuit _ = False"

section \<open>The details operation (package details)\<close>

datatype status = NoStatus | Added | Deleted | Modified | Renamed | Copied

record item =
  item_status :: status
  name :: string
  fileName :: string
  selected :: bool
  conflict :: bool

text \<open>
  \<open>DetailsList\<close> is embedded in \<open>Operation\<close>; its file is not part of the modelled
  sources, only the fields \<open>Operation\<close> reads and writes are. \<open>cursor\<close> is a Go \<open>int\<close>.
\<close>

record DetailsList =
  files :: "item list"
  cursor :: int
  selectedHint :: string
  unselectedHint :: string

text \<open>\<open>confirmation.New(messages, options...)\<close>: the dialog as its constructor arguments.\<close>

record confirmation_Model =
  messages :: "string list"
  stylePrefix :: string
  options :: "(string \<times> Cmd \<times> Binding) list"

record Commit =
  ChangeId :: string
  CommitId :: string

text \<open>
  \<open>Operation\<close>: the embedded list, the revision, the open confirmation dialog (if any), the
  key map, and of the shared context the screen width. \<open>op_calls\<close> is not a field of the Go
  struct: it lists, in order, the calls made into collaborators.
\<close>

record Operation = DetailsList +
  revision :: Commit
  confirmation :: "confirmation_Model option"
  op_keyMap :: KeyMappings
  op_ScreenWidth :: int
  op_calls :: "call list"

datatype panic = NilPointerDereference













text \<open>A result of \<open>internalUpdate\<close> that carries no quit command.\<close>

definition noQuit :: "panic + (Operation \<times> Cmd) \<Rightarrow> bool" where
  "noQuit r = (case r of Inl p \<Rightarrow> True | Inr (s, c) \<Rightarrow> \<not> emitsQuit c)"

section \<open>The top-level model (package ui)\<close>

subsection \<open>Geometry and view nodes\<close>

text \<open>\<open>image.Rectangle\<close> with its \<open>Min\<close> and \<open>Max\<close> points; \<open>pt.In(r)\<close> as package image has it.\<close>

record Rectangle =
  Min_X :: int
  Min_Y :: int
  Max_X :: int
  Max_Y :: int

definition In :: "int \<times> int \<Rightarrow> Rectangle \<Rightarrow> bool" where
  "In pt r = (Min_X r \<le> fst pt \<and> fst pt < Max_X r \<and> Min_Y r \<le> snd pt \<and> snd pt < Max_Y r)"

text \<open>\<open>cellbuf.Rect(x, y, w, h)\<close> is \<open>image.Rect(x, y, x+w, y+h)\<close>, which orders its corners.\<close>

definition cellbuf_Rect :: "int \<Rightarrow> int \<Rightarrow> int \<Rightarrow> int \<Rightarrow> Rectangle" where
  "cellbuf_Rect x y w h =
     \<lparr>Min_X = min x (x + w), Min_Y = min y (y + h), Max_X = max x (x + w), Max_Y = max y (y + h)\<rparr>"

record ViewNode =
  Frame :: Rectangle
  Width :: int
  Height :: int

subsection \<open>Sub-components\<close>

text \<open>
  The sub-components are other packages of the repository, not under src/. Of each the
  model keeps what \<open>ui.go\<close> reads: a frame, and as fields the answers that the query
  methods it calls give when the event arrives (\<open>IsEditing()\<close>, \<open>InNormalMode()\<close>,
  \<open>IsFocused()\<close>, \<open>Any()\<close>, \<open>SelectedRevision()\<close>, \<open>Visible()\<close>, \<open>AtBottom()\<close>,
  \<open>AutoPosition()\<close>). A call of a method that may change a sub-component is recorded
  in \<open>calls\<close>, with its arguments; the fields of the sub-component stay as they were.
\<close>

text \<open>
  The current operation of the revisions view: the details operation modelled above, or
  any other operation, known by what its \<open>Name()\<close> returns.
\<close>

datatype operation = op_details Operation | op_other string

fun operation_Name :: "operation \<Rightarrow> string" where
  "operation_Name (op_details s) = ''details''"
| "operation_Name (op_other n) = n"

record revisions_Model = ViewNode +
  CurrentOperation :: operation
  IsEditing :: bool
  InNormalMode :: bool
  SelectedRevision :: "Commit option"

type_synonym oplog_Model = ViewNode

record diff_Model = ViewNode +
  diff_text :: string

record revset_Model =
  Editing :: bool

record status_Model =
  IsFocused :: bool

record flash_Model =
  Any :: bool

datatype leader_Model = leader_New

datatype password_Model = password_New

record preview_Model = ViewNode +
  Visible :: bool
  AtBottom :: bool
  AutoPosition :: bool

text \<open>The dialogs that can occupy the \<open>stacked\<close> slot, by constructor.\<close>

datatype SizableModel =
    git_NewModel | undo_NewModel | redo_NewModel | bookmarks_NewModel
  | customcommands_NewModel | helppage_New
  | choose_NewWithTitle "string list" string
  | input_NewWithTitle string string

datatype State = Loading | Ready | Error

subsection \<open>Custom commands and the main context\<close>

type_synonym SelectedItem = nat

text \<open>
  A custom command as \<open>ui.go\<close> uses it: its chord sequence, its single-key binding and its
  applicability predicate on the selected item.
\<close>

record CustomCommand =
  cc_Name :: string
  Sequence :: "Binding list"
  cc_Binding :: Binding
  IsApplicableTo :: "SelectedItem \<Rightarrow> bool"

record MainContext =
  SelectedItem :: SelectedItem
  CurrentRevset :: string
  DefaultRevset :: string
  ScreenWidth :: int
  SortedCustomCommands :: "CustomCommand list"

subsection \<open>The sequence overlay (package customcommands)\<close>

text \<open>
  Modelled from the spec: \<open>customcommands.SequenceOverlay\<close> with \<open>NewSequenceOverlay\<close>,
  \<open>HandleKey\<close> and \<open>HandleTimeout\<close> is not under src/; only the calls in \<open>ui.go\<close>
  and the fields \<open>Cmd\<close> and \<open>Active\<close> of the result are. The matcher follows section
  4.2 of the spec. Its state is \<open>Idle\<close> or \<open>Collecting\<close> with a prefix of key chords, a
  set of candidate actions and a deadline; in \<open>ui.go\<close> \<open>Idle\<close> is the nil overlay and
  \<open>Collecting\<close> a non-nil one, and the overlay that \<open>ui.go\<close> creates just before it
  hands over the first key has collected nothing yet (an empty prefix).
  \<^item> While \<open>Idle\<close> (first key): "compute the set of bound actions whose first chord
    matches the key and whose applicability predicate currently holds; if empty, the key
    is not consumed; if non-empty, enter \<open>Collecting\<close> with that candidate set and a
    deadline timer, and consume the key".
  \<^item> While \<open>Collecting\<close>: "filter candidates to those whose next unmatched chord equals
    the key; if exactly one candidate remains and its chord sequence is now fully consumed,
    invoke its bound action and return to \<open>Idle\<close>; if multiple candidates remain with at
    least one fully consumed, invoke the first fully-consumed one in the order the
    candidates were declared; if the filtered set is empty, discard silently and return to
    \<open>Idle\<close> without invoking anything"; otherwise go on collecting.
  \<^item> The timeout "scheduled when entering \<open>Collecting\<close> and cancelled/rescheduled on
    every further key consumed, forces a return to \<open>Idle\<close> with no action invoked". The
    deadline is kept as a counter that every scheduled timer carries, so that a cancelled
    timer is told from the current one.
\<close>

record SequenceOverlay =
  prefix :: "KeyMsg list"
  candidates :: "CustomCommand list"
  deadline :: nat

record SequenceResult =
  res_Cmd :: Cmd
  res_Active :: bool

text \<open>
  Modelled from the spec: \<open>NewSequenceOverlay\<close> (not under src/) gives the overlay
  before its first key: nothing collected, no candidates, no timer scheduled yet.
\<close>

definition NewSequenceOverlay :: "MainContext \<Rightarrow> SequenceOverlay" where
  "NewSequenceOverlay ctx = \<lparr>prefix = [], candidates = [], deadline = 0\<rparr>"

text \<open>
  Modelled from the spec: the two tests of \<open>HandleKey\<close> (not under src/), "first chord
  matches the key and applicability predicate currently holds" and "next unmatched chord
  equals the key".
\<close>

definition firstChordMatches :: "MainContext \<Rightarrow> KeyMsg \<Rightarrow> CustomCommand \<Rightarrow> bool" where
  "firstChordMatches ctx k c =
     (case Sequence c of
        [] \<Rightarrow> False
      | b # bs \<Rightarrow> IsApplicableTo c (SelectedItem ctx) \<and> key_Matches k [b])"

definition nextChordMatches :: "nat \<Rightarrow> KeyMsg \<Rightarrow> CustomCommand \<Rightarrow> bool" where
  "nextChordMatches n k c = (n < length (Sequence c) \<and> key_Matches k [Sequence c ! n])"

text \<open>
  Modelled from the spec: the candidates of \<open>HandleKey\<close> (not under src/) that are left
  once the key \<open>k\<close> has arrived, computed from all bound actions on the first key and
  filtered from the current candidates on a later key.
\<close>

definition remainingCandidates ::
  "MainContext \<Rightarrow> SequenceOverlay \<Rightarrow> KeyMsg \<Rightarrow> CustomCommand list" where
  "remainingCandidates ctx ov k =
     (if prefix ov = [] then filter (firstChordMatches ctx k) (SortedCustomCommands ctx)
      else filter (nextChordMatches (length (prefix ov)) k) (candidates ov))"

text \<open>
  Modelled from the spec: \<open>SequenceOverlay.HandleKey\<close> (not under src/), the transitions
  of section 4.2 quoted above; the result says whether the overlay stays active and which
  command it returns (the deadline timer, the invoked action's command, or nil).
\<close>

definition HandleKey ::
  "MainContext \<Rightarrow> SequenceOverlay \<Rightarrow> KeyMsg \<Rightarrow> SequenceOverlay \<times> SequenceResult" where
  "HandleKey ctx ov k =
     (let cands = remainingCandidates ctx ov k in
      if cands = [] then (ov, \<lparr>res_Cmd = NilCmd, res_Active = False\<rparr>)
      else if prefix ov = [] then
        (\<lparr>prefix = [k], candidates = cands, deadline = Suc (deadline ov)\<rparr>,
         \<lparr>res_Cmd = SequenceTimeout_timer (Suc (deadline ov)), res_Active = True\<rparr>)
      else
        (case find (\<lambda>c. length (Sequence c) = Suc (length (prefix ov))) cands of
           Some c \<Rightarrow>
             (ov, \<lparr>res_Cmd = Returned (customcommand_Prepare (cc_Name c)),
                    res_Active = False\<rparr>)
         | None \<Rightarrow>
             (\<lparr>prefix = prefix ov @ [k], candidates = cands, deadline = Suc (deadline ov)\<rparr>,
              \<lparr>res_Cmd = SequenceTimeout_timer (Suc (deadline ov)), res_Active = True\<rparr>)))"

text \<open>
  Modelled from the spec: \<open>SequenceOverlay.HandleTimeout\<close> (not under src/): the current
  timer ends the overlay with no action invoked, a cancelled one changes nothing.
\<close>

definition HandleTimeout :: "SequenceOverlay \<Rightarrow> nat \<Rightarrow> SequenceOverlay \<times> SequenceResult" where
  "HandleTimeout ov n =
     (if n = deadline ov then (ov, \<lparr>res_Cmd = NilCmd, res_Active = False\<rparr>)
      else (ov, \<lparr>res_Cmd = NilCmd, res_Active = True\<rparr>))"

subsection \<open>The model\<close>

type_synonym Runner = nat

text \<open>
  \<open>Model\<close> as the Go struct has it. \<open>dragTarget\<close> refers to one of the views; \<open>calls\<close>
  is not a field of the Go struct: it lists, in order, the calls made into collaborators.
\<close>

record Model = ViewNode +
  revisions :: revisions_Model
  oplog :: "oplog_Model option"
  revsetModel :: revset_Model
  previewModel :: preview_Model
  diff :: "diff_Model option"
  leader :: "leader_Model option"
  flash :: flash_Model
  state :: State
  status :: status_Model
  password :: "password_Model option"
  context' :: MainContext
  scriptRunner :: "Runner option"
  keyMap :: KeyMappings
  stacked :: "SizableModel option"
  dragTarget :: "view option"
  sequenceOverlay :: "SequenceOverlay option"
  calls :: "call list"

text \<open>
  What the model cannot read off its own fields is a parameter of \<open>Update\<close>: whether the
  type of a view implements \<open>common.Draggable\<close>, what \<open>IsDragging()\<close> and
  \<open>DragStart(x, y)\<close> of a view answer, what \<open>ViewNode.SetFrame\<close> makes of the
  model's own view node, the views that \<open>oplog.New\<close> and \<open>diff.New\<close> construct, and
  the script runner of package scripting
  (\<open>RunScript\<close> gives the runner, whether the command is non-nil and whether it
  failed; \<open>HandleMsg\<close> gives whether the command is non-nil and the runner afterwards).
\<close>

record collaborators =
  implementsDraggable :: "view \<Rightarrow> bool"
  IsDragging :: "view \<Rightarrow> bool"
  DragStart :: "view \<Rightarrow> int \<Rightarrow> int \<Rightarrow> bool"
  SetFrame :: "Rectangle \<Rightarrow> ViewNode \<Rightarrow> ViewNode"
  oplog_New :: oplog_Model
  diff_New :: "string \<Rightarrow> diff_Model"
  RunScript :: "string \<Rightarrow> Runner option \<times> bool \<times> bool"
  HandleMsg :: "Runner \<Rightarrow> Msg \<Rightarrow> bool \<times> Runner"
  Done :: "Runner \<Rightarrow> bool"

definition sub_Update :: "component \<Rightarrow> Model \<Rightarrow> Model \<times> Cmd" where
  "sub_Update c m = (m\<lparr>calls := calls m @ [call_Update c]\<rparr>, Returned (call_Update c))"

definition sub_Init :: "component \<Rightarrow> Model \<Rightarrow> Model \<times> Cmd" where
  "sub_Init c m = (m\<lparr>calls := calls m @ [call_Init c]\<rparr>, Returned (call_Init c))"

definition handleFocusInputMessage :: "Model \<Rightarrow> Msg \<Rightarrow> (Model \<times> Cmd) \<times> bool" where
  "handleFocusInputMessage m msg =
     (if msg = common_CloseViewMsg then
        (if leader m \<noteq> None then ((m\<lparr>leader := None\<rparr>, NilCmd), True)
         else if diff m \<noteq> None then ((m\<lparr>diff := None\<rparr>, NilCmd), True)
         else if stacked m \<noteq> None then ((m\<lparr>stacked := None\<rparr>, NilCmd), True)
         else if oplog m \<noteq> None then ((m\<lparr>oplog := None\<rparr>, common_SelectionChanged), True)
         else ((m, NilCmd), False))
      else if leader m \<noteq> None then (sub_Update c_leader m, True)
      else
        (case msg of
           tea_KeyMsg k \<Rightarrow>
             if password m \<noteq> None then (sub_Update c_password m, True)
             else if diff m \<noteq> None then (sub_Update c_diff m, True)
             else if Editing (revsetModel m) then
               (sub_Update c_revsetModel (m\<lparr>state := Loading\<rparr>), True)
             else if IsFocused (status m) then (sub_Update c_status m, True)
             else if IsEditing (revisions m) then (sub_Update c_revisions m, True)
             else if stacked m \<noteq> None then (sub_Update c_stacked m, True)
             else ((m, NilCmd), False)
         | _ \<Rightarrow> ((m, NilCmd), False)))"

definition isSafeToQuit :: "Model \<Rightarrow> bool" where
  "isSafeToQuit m =
     (if stacked m \<noteq> None then False
      else if oplog m \<noteq> None then False
      else if operation_Name (CurrentOperation (revisions m)) = ''normal'' then True
      else False)"

definition findViewAt :: "Model \<Rightarrow> int \<Rightarrow> int \<Rightarrow> view option" where
  "findViewAt m x y =
     (let pt = (x, y) in
      if (case diff m of None \<Rightarrow> False | Some d \<Rightarrow> In pt (Frame d)) then Some v_diff
      else if (case oplog m of None \<Rightarrow> False | Some l \<Rightarrow> In pt (Frame l)) then Some v_oplog
      else if oplog m = None \<and> In pt (Frame (revisions m)) then Some v_revisions
      else if Visible (previewModel m) \<and> In pt (Frame (previewModel m)) then Some v_previewModel
      else None)"


subsection \<open>Custom command sequences\<close>

fun shouldStartLoop :: "SelectedItem \<Rightarrow> KeyMsg \<Rightarrow> CustomCommand list \<Rightarrow> bool" where
  "shouldStartLoop it k [] = False"
| "shouldStartLoop it k (command # rest) =
     (case Sequence command of
        [] \<Rightarrow> shouldStartLoop it k rest
      | b # bs \<Rightarrow>
          if \<not> IsApplicableTo command it then shouldStartLoop it k rest
          else if key_Matches k [b] then True
          else shouldStartLoop it k rest)"

definition shouldStartSequenceOverlay :: "Model \<Rightarrow> KeyMsg \<Rightarrow> bool" where
  "shouldStartSequenceOverlay m k =
     shouldStartLoop (SelectedItem (context' m)) k (SortedCustomCommands (context' m))"

definition ensureSequenceOverlay :: "Model \<Rightarrow> KeyMsg \<Rightarrow> Model \<times> bool" where
  "ensureSequenceOverlay m k =
     (if sequenceOverlay m \<noteq> None then (m, True)
      else if \<not> shouldStartSequenceOverlay m k then (m, False)
      else (m\<lparr>sequenceOverlay := Some (NewSequenceOverlay (context' m))\<rparr>, True))"

text \<open>
  \<open>handleCustomCommandSequence\<close>. After \<open>ensureSequenceOverlay\<close> has answered true the
  overlay is non-nil, so the \<open>None\<close> case below is never taken.
\<close>

definition handleCustomCommandSequence :: "Model \<Rightarrow> KeyMsg \<Rightarrow> Model \<times> Cmd" where
  "handleCustomCommandSequence m k =
     (case ensureSequenceOverlay m k of
        (m1, False) \<Rightarrow> (m1, NilCmd)
      | (m1, True) \<Rightarrow>
          (case sequenceOverlay m1 of
             None \<Rightarrow> (m1, NilCmd)
           | Some ov \<Rightarrow>
               (case HandleKey (context' m1) ov k of
                  (ov', res) \<Rightarrow>
                    ((if \<not> res_Active res then m1\<lparr>sequenceOverlay := None\<rparr>
                      else m1\<lparr>sequenceOverlay := Some ov'\<rparr>),
                     res_Cmd res))))"

text \<open>The loop of the \<open>default\<close> case: the first applicable command whose binding matches.\<close>

fun matchCustomCommand ::
  "SelectedItem \<Rightarrow> KeyMsg \<Rightarrow> CustomCommand list \<Rightarrow> CustomCommand option" where
  "matchCustomCommand it k [] = None"
| "matchCustomCommand it k (command # rest) =
     (if \<not> IsApplicableTo command it then matchCustomCommand it k rest
      else if key_Matches k [cc_Binding command] then Some command
      else matchCustomCommand it k rest)"

subsection \<open>The broadcast at the end of \<open>Update\<close>\<close>

definition bc_Update :: "component \<Rightarrow> Model \<times> Cmd list \<Rightarrow> Model \<times> Cmd list" where
  "bc_Update c st =
     (case st of (m, cmds) \<Rightarrow>
        (m\<lparr>calls := calls m @ [call_Update c]\<rparr>, cmds @ [Returned (call_Update c)]))"

definition bc_scriptRunner ::
  "collaborators \<Rightarrow> Msg \<Rightarrow> Model \<times> Cmd list \<Rightarrow> Model \<times> Cmd list" where
  "bc_scriptRunner env msg st =
     (case st of (m, cmds) \<Rightarrow>
        (case scriptRunner m of
           None \<Rightarrow> (m, cmds)
         | Some r \<Rightarrow>
             (case HandleMsg env r msg of
                (nonNil, r') \<Rightarrow>
                  (m\<lparr>scriptRunner := (if Done env r' then None else Some r'),
                      calls := calls m @ [scriptRunner_HandleMsg]\<rparr>,
                   (if nonNil then cmds @ [Returned scriptRunner_HandleMsg] else cmds)))))"

definition broadcast :: "collaborators \<Rightarrow> Model \<Rightarrow> Msg \<Rightarrow> Cmd list \<Rightarrow> Model \<times> Cmd" where
  "broadcast env m msg cmds =
     (let st1 = bc_Update c_flash (bc_Update c_status (bc_Update c_revsetModel (m, cmds)));
          st2 = (if stacked (fst st1) \<noteq> None then bc_Update c_stacked st1 else st1);
          st3 = bc_scriptRunner env msg st2;
          st4 = (if oplog (fst st3) \<noteq> None then bc_Update c_oplog st3
                 else bc_Update c_revisions st3);
          st5 = (if Visible (previewModel (fst st4)) then bc_Update c_previewModel st4 else st4)
      in (fst st5, tea_Batch (snd st5)))"

subsection \<open>Mouse events\<close>

definition view_component :: "view \<Rightarrow> component" where
  "view_component v =
     (case v of v_diff \<Rightarrow> c_diff | v_oplog \<Rightarrow> c_oplog | v_revisions \<Rightarrow> c_revisions
      | v_previewModel \<Rightarrow> c_previewModel)"

text \<open>The hit test and delivery at the end of the \<open>tea.MouseMsg\<close> case.\<close>

definition mouseHit :: "collaborators \<Rightarrow> Model \<Rightarrow> MouseMsg \<Rightarrow> Model \<times> Cmd" where
  "mouseHit env m msg =
     (case findViewAt m (X msg) (Y msg) of
        None \<Rightarrow> (m, NilCmd)
      | Some model \<Rightarrow>
          if implementsDraggable env model \<and> Action msg = MouseActionPress
             \<and> Button msg = MouseButtonLeft
          then
            (let m1 = m\<lparr>calls := calls m @ [call_DragStart model (X msg) (Y msg)]\<rparr> in
             if DragStart env model (X msg) (Y msg) then (m1\<lparr>dragTarget := Some model\<rparr>, NilCmd)
             else sub_Update (view_component model) m1)
          else sub_Update (view_component model) m)"

definition updateMouse :: "collaborators \<Rightarrow> Model \<Rightarrow> MouseMsg \<Rightarrow> Model \<times> Cmd" where
  "updateMouse env m msg =
     (if stacked m \<noteq> None then (m, NilCmd)
      else
        (case dragTarget m of
           None \<Rightarrow> mouseHit env m msg
         | Some t \<Rightarrow>
             if IsDragging env t then
               (case Action msg of
                  MouseActionRelease \<Rightarrow>
                    (m\<lparr>dragTarget := None,
                        calls := calls m @ [call_DragEnd t (X msg) (Y msg)]\<rparr>,
                     Returned (call_DragEnd t (X msg) (Y msg)))
                | MouseActionMotion \<Rightarrow>
                    (m\<lparr>calls := calls m @ [call_DragMove t (X msg) (Y msg)]\<rparr>,
                     Returned (call_DragMove t (X msg) (Y msg)))
                | MouseActionPress \<Rightarrow> mouseHit env m msg)
             else mouseHit env (m\<lparr>dragTarget := None\<rparr>) msg))"

subsection \<open>Global key bindings\<close>

definition openStacked :: "SizableModel \<Rightarrow> Model \<Rightarrow> Model \<times> Cmd" where
  "openStacked model m = sub_Init c_stacked (m\<lparr>stacked := Some model\<rparr>)"

definition openStackedBatch :: "SizableModel \<Rightarrow> Model \<Rightarrow> Model \<times> Cmd" where
  "openStackedBatch model m =
     (case openStacked model m of (m1, c) \<Rightarrow> (m1, tea_Batch [c]))"

text \<open>
  The \<open>switch\<close> of the \<open>tea.KeyMsg\<close> case, reached when the sequence overlay did not
  take the key. \<open>cmds\<close> is still empty there.
\<close>

definition globalKey :: "collaborators \<Rightarrow> Model \<Rightarrow> KeyMsg \<Rightarrow> Model \<times> Cmd" where
  "globalKey env m k =
     (let km = keyMap m in
      if key_Matches k [Cancel km] \<and> state m = Error then (m\<lparr>state := Ready\<rparr>, tea_Batch [])
      else if key_Matches k [Cancel km] \<and> stacked m \<noteq> None then
        (m\<lparr>stacked := None\<rparr>, tea_Batch [])
      else if key_Matches k [Cancel km] \<and> Any (flash m) then
        (m\<lparr>calls := calls m @ [flash_DeleteOldest]\<rparr>, tea_Batch [])
      else if key_Matches k [Quit km] \<and> isSafeToQuit m then (m, tea_Quit)
      else if key_Matches k [OpLog_Mode km] then
        sub_Init c_oplog (m\<lparr>oplog := Some (oplog_New env)\<rparr>)
      else if key_Matches k [Revset km] \<and> InNormalMode (revisions m) then
        (m\<lparr>calls := calls m @ [revsetModel_Update_Edit (state m \<noteq> Error)]\<rparr>,
         Returned (revsetModel_Update_Edit (state m \<noteq> Error)))
      else if key_Matches k [Git_Mode km] \<and> InNormalMode (revisions m) then
        openStacked git_NewModel m
      else if key_Matches k [Undo km] \<and> InNormalMode (revisions m) then
        openStackedBatch undo_NewModel m
      else if key_Matches k [Redo km] \<and> InNormalMode (revisions m) then
        openStackedBatch redo_NewModel m
      else if key_Matches k [Bookmark_Mode km] \<and> InNormalMode (revisions m) then
        openStackedBatch bookmarks_NewModel m
      else if key_Matches k [Help km] then (m, tea_Batch [common_ToggleHelp])
      else if key_Matches k [Preview_Mode km, Preview_ToggleBottom km] then
        (let m1 = (if key_Matches k [Preview_ToggleBottom km]
                   then m\<lparr>calls := calls m @
                          [previewModel_SetPosition False (\<not> AtBottom (previewModel m))]\<rparr>
                   else m)
         in if key_Matches k [Preview_ToggleBottom km] \<and> Visible (previewModel m1)
            then (m1, tea_Batch [])
            else (m1\<lparr>calls := calls m1 @ [previewModel_ToggleVisible]\<rparr>,
                  tea_Batch [common_SelectionChanged]))
      else if key_Matches k [Preview_Expand km] \<and> Visible (previewModel m) then
        (m\<lparr>calls := calls m @ [previewModel_Expand]\<rparr>, tea_Batch [])
      else if key_Matches k [Preview_Shrink km] \<and> Visible (previewModel m) then
        (m\<lparr>calls := calls m @ [previewModel_Shrink]\<rparr>, tea_Batch [])
      else if key_Matches k [CustomCommands km] then
        openStackedBatch customcommands_NewModel m
      else if key_Matches k [Leader km] then
        (m\<lparr>leader := Some leader_New\<rparr>, tea_Batch [leader_InitCmd])
      else if key_Matches k [FileSearch_Toggle km] then
        (case SelectedRevision (revisions m) of
           None \<Rightarrow> (m, NilCmd)
         | Some revn \<Rightarrow>
             (m\<lparr>calls := calls m @ [RunCommandImmediate (jj_FilesInRevision (ChangeId revn))]\<rparr>,
              common_FileSearch (CurrentRevset (context' m)) (Visible (previewModel m))
                (ChangeId revn)))
      else if key_Matches k [QuickSearch km] \<and> oplog m \<noteq> None then (m, NilCmd)
      else if key_Matches k [Suspend km] then (m, tea_Suspend)
      else
        (case matchCustomCommand (SelectedItem (context' m)) k
                (SortedCustomCommands (context' m)) of
           Some command \<Rightarrow>
             (m\<lparr>calls := calls m @ [customcommand_Prepare (cc_Name command)]\<rparr>,
              Returned (customcommand_Prepare (cc_Name command)))
         | None \<Rightarrow> broadcast env m (tea_KeyMsg k) []))"

text \<open>The \<open>tea.KeyMsg\<close> case: the sequence overlay first, then the global bindings.\<close>

definition updateKey :: "collaborators \<Rightarrow> Model \<Rightarrow> KeyMsg \<Rightarrow> Model \<times> Cmd" where
  "updateKey env m k =
     (let wasPartialSequenceMatch = (sequenceOverlay m \<noteq> None) in
      case handleCustomCommandSequence m k of
        (m1, cmd) \<Rightarrow>
          if cmd \<noteq> NilCmd \<or> sequenceOverlay m1 \<noteq> None then (m1, cmd)
          else if wasPartialSequenceMatch then (m1, NilCmd)
          else globalKey env m1 k)"

subsection \<open>\<open>Update\<close>\<close>

text \<open>
  \<open>scheduleAutoRefresh\<close>: the tick lasts \<open>interval\<close> seconds, written here in
  milliseconds.
\<close>

definition scheduleAutoRefresh :: "Config \<Rightarrow> Cmd" where
  "scheduleAutoRefresh cfg =
     (let interval = AutoRefreshInterval (UI cfg) in
      if interval > 0 then tea_Tick (interval * 1000) triggerAutoRefreshMsg_tick else NilCmd)"

definition Update :: "collaborators \<Rightarrow> Config \<Rightarrow> Model \<Rightarrow> Msg \<Rightarrow> Model \<times> Cmd" where
  "Update env cfg m0 msg =
     (case handleFocusInputMessage m0 msg of
        (r, True) \<Rightarrow> r
      | ((m, c), False) \<Rightarrow>
          (case msg of
             common_DeferredUpdateMsg fn \<Rightarrow>
               if fn then (m\<lparr>calls := calls m @ [DeferredUpdateMsg_Fn]\<rparr>,
                           Returned DeferredUpdateMsg_Fn)
               else (m, NilCmd)
           | tea_FocusMsg \<Rightarrow>
               (m, tea_Batch [common_RefreshAndKeepSelections, tea_EnableMouseCellMotion])
           | tea_MouseMsg mm \<Rightarrow> updateMouse env m mm
           | tea_KeyMsg k \<Rightarrow> updateKey env m k
           | common_ExecMsg \<Rightarrow>
               (m\<lparr>calls := calls m @ [exec_process_ExecLine]\<rparr>, Returned exec_process_ExecLine)
           | common_ExecProcessCompletedMsg \<Rightarrow> broadcast env m msg [common_Refresh]
           | common_ToggleHelpMsg \<Rightarrow>
               (if stacked m = None then (m\<lparr>stacked := Some helppage_New\<rparr>, NilCmd)
                else (m\<lparr>stacked := None\<rparr>, NilCmd))
           | common_ShowDiffMsg out \<Rightarrow> sub_Init c_diff (m\<lparr>diff := Some (diff_New env out)\<rparr>)
           | common_UpdateRevisionsSuccessMsg \<Rightarrow> broadcast env (m\<lparr>state := Ready\<rparr>) msg []
           | customcommands_SequenceTimeoutMsg n \<Rightarrow>
               (case sequenceOverlay m of
                  None \<Rightarrow> (m, NilCmd)
                | Some ov \<Rightarrow>
                    (case HandleTimeout ov n of
                       (ov', res) \<Rightarrow>
                         ((if \<not> res_Active res then m\<lparr>sequenceOverlay := None\<rparr>
                           else m\<lparr>sequenceOverlay := Some ov'\<rparr>),
                          res_Cmd res)))
           | triggerAutoRefreshMsg \<Rightarrow>
               (m, tea_Batch [scheduleAutoRefresh cfg, common_AutoRefresh])
           | common_UpdateRevSetMsg rs \<Rightarrow>
               (let cur = (if rs = [] then DefaultRevset (context' m) else rs) in
                (m\<lparr>context' := (context' m)\<lparr>CurrentRevset := cur\<rparr>,
                   calls := calls m @ [revsetModel_AddToHistory cur]\<rparr>,
                 common_Refresh))
           | common_RunLuaScriptMsg script \<Rightarrow>
               (case RunScript env script of
                  (runner, nonNil, err) \<Rightarrow>
                    let m1 = m\<lparr>calls := calls m @ [scripting_RunScript script]\<rparr>;
                        cmd = (if nonNil then Returned (scripting_RunScript script) else NilCmd)
                    in
                    if err then (m1, common_CommandCompleted_Err)
                    else if \<not> nonNil \<and>
                            (case runner of None \<Rightarrow> True | Some r \<Rightarrow> Done env r)
                    then (m1\<lparr>scriptRunner := None\<rparr>, cmd)
                    else (m1\<lparr>scriptRunner := runner\<rparr>, cmd))
           | common_ShowChooseMsg opts title \<Rightarrow> openStacked (choose_NewWithTitle opts title) m
           | choose_SelectedMsg \<Rightarrow> broadcast env (m\<lparr>stacked := None\<rparr>) msg []
           | choose_CancelledMsg \<Rightarrow> broadcast env (m\<lparr>stacked := None\<rparr>) msg []
           | common_ShowInputMsg title prompt \<Rightarrow> openStacked (input_NewWithTitle title prompt) m
           | input_SelectedMsg \<Rightarrow> broadcast env (m\<lparr>stacked := None\<rparr>) msg []
           | input_CancelledMsg \<Rightarrow> broadcast env (m\<lparr>stacked := None\<rparr>) msg []
           | common_ShowPreview b \<Rightarrow>
               (m\<lparr>calls := calls m @ [previewModel_SetVisible b]\<rparr>,
                tea_Batch [common_SelectionChanged])
           | common_TogglePasswordMsg hasPassword \<Rightarrow>
               (let m1 = (if password m \<noteq> None
                          then m\<lparr>calls := calls m @ [call_Update c_password]\<rparr> else m);
                    m2 = (if \<not> hasPassword then m1\<lparr>password := None\<rparr>
                          else m1\<lparr>password := Some password_New\<rparr>)
                in broadcast env m2 msg [])
           | tea_WindowSizeMsg w h \<Rightarrow>
               (let n = SetFrame env (cellbuf_Rect 0 0 w h) (ViewNode.truncate m);
                    m1 = m\<lparr>Frame := Frame n, Width := Width n, Height := Height n\<rparr>;
                    m2 = m1\<lparr>calls := calls m1 @ [flash_SetWidth (Width m1), flash_SetHeight (Height m1)],
                            context' := (context' m1)\<lparr>ScreenWidth := w\<rparr>\<rparr>
                in broadcast env m2 msg [])
           | _ \<Rightarrow> broadcast env m msg []))"

subsection \<open>The render wrapper\<close>

record wrapper =
  ui :: Model
  scheduledNextFrame :: bool
  render :: bool
  cachedFrame :: string

definition wrapper_Update ::
  "collaborators \<Rightarrow> Config \<Rightarrow> wrapper \<Rightarrow> Msg \<Rightarrow> wrapper \<times> Cmd" where
  "wrapper_Update env cfg w msg =
     (if msg = frameTickMsg then (w\<lparr>render := True, scheduledNextFrame := False\<rparr>, NilCmd)
      else
        (case Update env cfg (ui w) msg of
           (m, cmd) \<Rightarrow>
             if \<not> scheduledNextFrame w then
               (w\<lparr>ui := m, scheduledNextFrame := True\<rparr>,
                tea_Batch [cmd, tea_Tick 8 frameTickMsg_tick])
             else (w\<lparr>ui := m\<rparr>, cmd)))"

text \<open>
  \<open>wrapper.View\<close>. \<open>Model.View\<close> composes the frame with lipgloss and cellbuf, which
  are outside the model: it is the parameter \<open>view\<close>, giving the frame and the model
  with the sub-view frames it has set.
\<close>

definition wrapper_View :: "(Model \<Rightarrow> string \<times> Model) \<Rightarrow> wrapper \<Rightarrow> wrapper \<times> string" where
  "wrapper_View view w =
     (if render w then
        (case view (ui w) of
           (frame, m) \<Rightarrow> (w\<lparr>ui := m, cachedFrame := frame, render := False\<rparr>, frame))
      else (w, cachedFrame w))"

text \<open>The wrapper fed a list of events, one \<open>Update\<close> each, in order.\<close>

fun wrapper_Updates :: "collaborators \<Rightarrow> Config \<Rightarrow> wrapper \<Rightarrow> Msg list \<Rightarrow> wrapper" where
  "wrapper_Updates env cfg w [] = w"
| "wrapper_Updates env cfg w (msg # msgs) =
     wrapper_Updates env cfg (fst (wrapper_Update env cfg w msg)) msgs"

section \<open>Fixtures for the closed instances\<close>

definition bind :: "string list \<Rightarrow> Binding" where
  "bind ks = \<lparr>keys = ks, disabled = False\<rparr>"

definition testKeyMap :: KeyMappings where
  "testKeyMap = \<lparr>Up = bind [''up'', ''k''], Down = bind [''down'', ''j''],
     Cancel = bind [''esc''], Quit = bind [''q''], Refresh = bind [''ctrl+r''],
     Suspend = bind [''ctrl+z''], Help = bind [''?''], Revset = bind [''L''],
     Undo = bind [''u''], Redo = bind [''U''], Leader = bind [''ctrl+k''],
     QuickSearch = bind [''/''], CustomCommands = bind [''x''], OpLog_Mode = bind [''o''],
     Git_Mode = bind [''g''], Bookmark_Mode = bind [''b''], FileSearch_Toggle = bind [''ctrl+t''],
     Preview_Mode = bind [''p''], Preview_ToggleBottom = bind [''P''],
     Preview_Expand = bind [''ctrl+h''], Preview_Shrink = bind [''ctrl+l''],
     Details_Close = bind [''h''], Details_Diff = bind [''d''], Details_Split = bind [''s''],
     Details_SplitParallel = bind [''S''], Details_Squash = bind [''Q''],
     Details_Restore = bind [''r''], Details_Absorb = bind [''A''],
     Details_ToggleSelect = bind [''m'', '' ''],
     Details_RevisionsChangingFile = bind [''*'']\<rparr>"

definition testItem :: "string \<Rightarrow> bool \<Rightarrow> item" where
  "testItem n sel =
     \<lparr>item_status = Modified, name = n, fileName = n, selected = sel, conflict = False\<rparr>"

definition testOperation :: Operation where
  "testOperation = \<lparr>files = [testItem ''a.go'' False, testItem ''b.go'' False], cursor = 1,
     selectedHint = [], unselectedHint = [],
     revision = \<lparr>ChangeId = ''xyz'', CommitId = ''abc''\<rparr>, confirmation = None,
     op_keyMap = testKeyMap, op_ScreenWidth = 80, op_calls = []\<rparr>"


definition testRect :: "int \<Rightarrow> int \<Rightarrow> int \<Rightarrow> int \<Rightarrow> Rectangle" where
  "testRect x0 y0 x1 y1 = \<lparr>Min_X = x0, Min_Y = y0, Max_X = x1, Max_Y = y1\<rparr>"

definition testCommand :: CustomCommand where
  "testCommand = \<lparr>cc_Name = ''push'', Sequence = [bind [''w''], bind [''p'']],
     cc_Binding = bind [''ctrl+p''], IsApplicableTo = (\<lambda>it. True)\<rparr>"

definition testContext :: MainContext where
  "testContext = \<lparr>SelectedItem = 0, CurrentRevset = ''all()'', DefaultRevset = ''all()'',
     ScreenWidth = 100, SortedCustomCommands = [testCommand]\<rparr>"

definition testModel :: Model where
  "testModel = \<lparr>Frame = testRect 0 0 100 40, Width = 100, Height = 40,
     revisions = \<lparr>Frame = testRect 0 1 60 39, Width = 60, Height = 38,
       CurrentOperation = op_other ''normal'', IsEditing = False, InNormalMode = True,
       SelectedRevision = Some \<lparr>ChangeId = ''xyz'', CommitId = ''abc''\<rparr>\<rparr>,
     oplog = None,
     revsetModel = \<lparr>Editing = False\<rparr>,
     previewModel = \<lparr>Frame = testRect 60 1 100 39, Width = 40, Height = 38,
       Visible = True, AtBottom = False, AutoPosition = True\<rparr>,
     diff = None, leader = None, flash = \<lparr>Any = False\<rparr>, state = Ready,
     status = \<lparr>IsFocused = False\<rparr>, password = None, context' = testContext,
     scriptRunner = None, keyMap = testKeyMap, stacked = None, dragTarget = None,
     sequenceOverlay = None, calls = []\<rparr>"

definition testOplog :: oplog_Model where
  "testOplog = \<lparr>Frame = testRect 0 0 0 0, Width = 0, Height = 0\<rparr>"

definition testDiff :: "string \<Rightarrow> diff_Model" where
  "testDiff out = \<lparr>Frame = testRect 0 0 0 0, Width = 0, Height = 0, diff_text = out\<rparr>"

definition testEnv :: collaborators where
  "testEnv = \<lparr>implementsDraggable = (\<lambda>v. v = v_previewModel), IsDragging = (\<lambda>v. True),
     DragStart = (\<lambda>v x y. True),
     SetFrame = (\<lambda>r n. \<lparr>Frame = r, Width = Max_X r - Min_X r, Height = Max_Y r - Min_Y r\<rparr>),
     oplog_New = testOplog, diff_New = testDiff, RunScript = (\<lambda>s. (None, False, False)),
     HandleMsg = (\<lambda>r msg. (False, r)), Done = (\<lambda>r. True)\<rparr>"

definition testConfig :: Config where
  "testConfig = \<lparr>UI = \<lparr>AutoRefreshInterval = 0\<rparr>,
     Preview = \<lparr>RevisionCommand = [], OplogCommand = [], FileCommand = [],
       ShowAtStart = False, Position = ''auto''\<rparr>,
     Diff = \<lparr>Command = [], Show = ShowOptionDiff\<rparr>\<rparr>"

definition testModelAllOverlays :: Model where
  "testModelAllOverlays = testModel\<lparr>leader := Some leader_New, diff := Some (testDiff ''d''),
     stacked := Some helppage_New, oplog := Some testOplog\<rparr>"

definition testModelEditing :: Model where
  "testModelEditing =
     testModel\<lparr>revisions := (revisions testModel)\<lparr>IsEditing := True\<rparr>, stacked := Some helppage_New\<rparr>"

definition testOverlay :: SequenceOverlay where
  "testOverlay = \<lparr>prefix = [''w''], candidates = [testCommand], deadline = 1\<rparr>"

definition testModelCollecting :: Model where
  "testModelCollecting = testModel\<lparr>sequenceOverlay := Some testOverlay\<rparr>"

definition testModelDiff :: Model where
  "testModelDiff = testModel\<lparr>diff := Some (testDiff ''d'')\<rparr>"

definition testMouse :: "int \<Rightarrow> int \<Rightarrow> MouseAction \<Rightarrow> MouseButton \<Rightarrow> MouseMsg" where
  "testMouse x y a b = \<lparr>X = x, Y = y, Action = a, Button = b\<rparr>"

definition testModelHelp :: Model where
  "testModelHelp = testModel\<lparr>stacked := Some helppage_New\<rparr>"

definition testModelDrag :: Model where
  "testModelDrag = testModel\<lparr>dragTarget := Some v_previewModel\<rparr>"

definition testModelHelpDrag :: Model where
  "testModelHelpDrag = testModel\<lparr>stacked := Some helppage_New, dragTarget := Some v_previewModel\<rparr>"

definition testView :: "Model \<Rightarrow> string \<times> Model" where
  "testView m = ((if stacked m = None then ''main'' else ''help''), m)"

definition testWrapper :: wrapper where
  "testWrapper = \<lparr>ui = testModel, scheduledNextFrame = False, render = True, cachedFrame = []\<rparr>"


definition testModelCollectingDiff :: Model where
  "testModelCollectingDiff =
     testModel\<lparr>diff := Some (testDiff ''d''), sequenceOverlay := Some testOverlay\<rparr>"

definition testModelLeader :: Model where
  "testModelLeader = testModel\<lparr>leader := Some leader_New\<rparr>"

section \<open>Theorems\<close>

text \<open>
  C8. For every configuration whose preview position string is not one of "auto", "bottom",
  "right", \<open>GetPreviewPosition\<close> returns a non-nil error together with the default position
  (auto); for each of the three valid strings it returns the corresponding position with a
  nil error. The function is total: every configuration gets a position.
\<close>

theorem GetPreviewPosition_validates:
  "(Position (Preview c) \<notin> {''auto'', ''bottom'', ''right''} \<longrightarrow>
      fst (GetPreviewPosition c) = PreviewPositionAuto \<and>
      snd (GetPreviewPosition c) = Some (InvalidPreviewPosition (Position (Preview c)))) \<and>
   (Position (Preview c) = ''auto'' \<longrightarrow> GetPreviewPosition c = (PreviewPositionAuto, None)) \<and>
   (Position (Preview c) = ''bottom'' \<longrightarrow> GetPreviewPosition c = (PreviewPositionBottom, None)) \<and>
   (Position (Preview c) = ''right'' \<longrightarrow> GetPreviewPosition c = (PreviewPositionRight, None))"
  by (simp add: GetPreviewPosition_def Let_def)

theorem GetPreviewPosition_validates_witness:
  "GetPreviewPosition \<lparr>UI = \<lparr>AutoRefreshInterval = 0\<rparr>,
       Preview = \<lparr>RevisionCommand = [], OplogCommand = [], FileCommand = [],
       ShowAtStart = False, Position = ''left''\<rparr>,
       Diff = \<lparr>Command = [], Show = ShowOptionDiff\<rparr>\<rparr>
     = (PreviewPositionAuto, Some (InvalidPreviewPosition ''left'')) \<and>
   GetPreviewPosition \<lparr>UI = \<lparr>AutoRefreshInterval = 0\<rparr>,
       Preview = \<lparr>RevisionCommand = [], OplogCommand = [], FileCommand = [],
       ShowAtStart = False, Position = ''bottom''\<rparr>,
       Diff = \<lparr>Command = [], Show = ShowOptionDiff\<rparr>\<rparr>
     = (PreviewPositionBottom, None)"
  using GetPreviewPosition_validates
    [of "\<lparr>UI = \<lparr>AutoRefreshInterval = 0\<rparr>,
       Preview = \<lparr>RevisionCommand = [], OplogCommand = [], FileCommand = [],
       ShowAtStart = False, Position = ''left''\<rparr>,
       Diff = \<lparr>Command = [], Show = ShowOptionDiff\<rparr>\<rparr>"]
    GetPreviewPosition_validates
    [of "\<lparr>UI = \<lparr>AutoRefreshInterval = 0\<rparr>,
       Preview = \<lparr>RevisionCommand = [], OplogCommand = [], FileCommand = [],
       ShowAtStart = False, Position = ''bottom''\<rparr>,
       Diff = \<lparr>Command = [], Show = ShowOptionDiff\<rparr>\<rparr>"]
  by (simp add: prod_eq_iff)

subsection \<open>Facts about the fixtures\<close>

lemma testModel_slots:
  "leader testModel = None" "diff testModel = None" "stacked testModel = None"
  "oplog testModel = None" "password testModel = None" "dragTarget testModel = None"
  "sequenceOverlay testModel = None" "scriptRunner testModel = None" "calls testModel = []"
  "state testModel = Ready" "keyMap testModel = testKeyMap" "context' testModel = testContext"
  "Editing (revsetModel testModel) = False" "IsFocused (status testModel) = False"
  "IsEditing (revisions testModel) = False" "Any (flash testModel) = False"
  by (simp_all add: testModel_def)



lemma testModelEditing_slots:
  "leader testModelEditing = None" "password testModelEditing = None"
  "diff testModelEditing = None" "Editing (revsetModel testModelEditing) = False"
  "IsFocused (status testModelEditing) = False" "IsEditing (revisions testModelEditing) = True"
  "stacked testModelEditing = Some helppage_New" "calls testModelEditing = []"
  by (simp_all add: testModelEditing_def testModel_slots)

lemma testCommand_chords:
  "firstChordMatches testContext ''w'' testCommand"
  "\<not> nextChordMatches (Suc 0) ''z'' testCommand"
  "SortedCustomCommands testContext = [testCommand]"
  by (simp_all add: firstChordMatches_def nextChordMatches_def testCommand_def testContext_def
        bind_def Enabled_def)

subsection \<open>The overlay slots and the quit guard\<close>

text \<open>
  C1. A \<open>Close\<close> event dismisses exactly one overlay, the first non-empty slot in the
  order leader mode, diff view, stacked modal, op-log view: that slot becomes empty and
  nothing else in the model changes. The event is handled exactly when one of the four
  slots is non-empty; when all four are empty it is reported unhandled and \<open>Update\<close>
  passes it on to the broadcast. After the leader has been dismissed, the next \<open>Close\<close>
  dismisses the diff view.
\<close>

theorem Close_dismisses_one_overlay:
  "(leader m \<noteq> None \<longrightarrow>
      Update env cfg m common_CloseViewMsg = (m\<lparr>leader := None\<rparr>, NilCmd)) \<and>
   (leader m = None \<and> diff m \<noteq> None \<longrightarrow>
      Update env cfg m common_CloseViewMsg = (m\<lparr>diff := None\<rparr>, NilCmd)) \<and>
   (leader m = None \<and> diff m = None \<and> stacked m \<noteq> None \<longrightarrow>
      Update env cfg m common_CloseViewMsg = (m\<lparr>stacked := None\<rparr>, NilCmd)) \<and>
   (leader m = None \<and> diff m = None \<and> stacked m = None \<and> oplog m \<noteq> None \<longrightarrow>
      Update env cfg m common_CloseViewMsg = (m\<lparr>oplog := None\<rparr>, common_SelectionChanged)) \<and>
   (snd (handleFocusInputMessage m common_CloseViewMsg) \<longleftrightarrow>
      leader m \<noteq> None \<or> diff m \<noteq> None \<or> stacked m \<noteq> None \<or> oplog m \<noteq> None) \<and>
   (leader m = None \<and> diff m = None \<and> stacked m = None \<and> oplog m = None \<longrightarrow>
      handleFocusInputMessage m common_CloseViewMsg = ((m, NilCmd), False) \<and>
      Update env cfg m common_CloseViewMsg = broadcast env m common_CloseViewMsg []) \<and>
   (diff m \<noteq> None \<longrightarrow>
      Update env cfg (m\<lparr>leader := None\<rparr>) common_CloseViewMsg
        = (m\<lparr>leader := None, diff := None\<rparr>, NilCmd))"
  by (simp add: Update_def handleFocusInputMessage_def)

theorem Close_dismisses_one_overlay_witness:
  "Update testEnv testConfig testModelAllOverlays common_CloseViewMsg
     = (testModelAllOverlays\<lparr>leader := None\<rparr>, NilCmd) \<and>
   Update testEnv testConfig (testModelAllOverlays\<lparr>leader := None\<rparr>) common_CloseViewMsg
     = (testModelAllOverlays\<lparr>leader := None, diff := None\<rparr>, NilCmd) \<and>
   Update testEnv testConfig (testModel\<lparr>oplog := Some testOplog\<rparr>) common_CloseViewMsg
     = (testModel\<lparr>oplog := Some testOplog\<rparr>\<lparr>oplog := None\<rparr>, common_SelectionChanged) \<and>
   handleFocusInputMessage testModel common_CloseViewMsg = ((testModel, NilCmd), False)"
proof -
  note t1 = Close_dismisses_one_overlay [of testModelAllOverlays testEnv testConfig]
  note t2 = Close_dismisses_one_overlay [of "testModel\<lparr>oplog := Some testOplog\<rparr>" testEnv testConfig]
  note t3 = Close_dismisses_one_overlay [of testModel testEnv testConfig]
  have a: "leader testModelAllOverlays \<noteq> None" "diff testModelAllOverlays \<noteq> None"
    by (simp_all add: testModelAllOverlays_def)
  have b: "leader (testModel\<lparr>oplog := Some testOplog\<rparr>) = None"
    "diff (testModel\<lparr>oplog := Some testOplog\<rparr>) = None"
    "stacked (testModel\<lparr>oplog := Some testOplog\<rparr>) = None"
    "oplog (testModel\<lparr>oplog := Some testOplog\<rparr>) \<noteq> None"
    by (simp_all add: testModel_slots)
  show ?thesis
    using t1 t2 t3 a b testModel_slots(1-4) by simp
qed

text \<open>
  C4. \<open>isSafeToQuit\<close> is false whenever a stacked modal is open, or the op-log view is
  open, or the current operation of the revisions view is not the normal one; it is true
  exactly when no stacked modal is open, no op-log view is open and the current operation
  is named "normal".
\<close>

theorem isSafeToQuit_guard:
  "((stacked m \<noteq> None \<or> oplog m \<noteq> None \<or>
       operation_Name (CurrentOperation (revisions m)) \<noteq> ''normal'') \<longrightarrow> \<not> isSafeToQuit m) \<and>
   (isSafeToQuit m \<longleftrightarrow>
      stacked m = None \<and> oplog m = None \<and>
      operation_Name (CurrentOperation (revisions m)) = ''normal'')"
  by (simp add: isSafeToQuit_def)

theorem isSafeToQuit_guard_witness:
  "isSafeToQuit testModel \<and>
   \<not> isSafeToQuit (testModel\<lparr>stacked := Some helppage_New\<rparr>) \<and>
   \<not> isSafeToQuit (testModel\<lparr>oplog := Some testOplog\<rparr>) \<and>
   \<not> isSafeToQuit (testModel\<lparr>revisions :=
        (revisions testModel)\<lparr>CurrentOperation := op_details testOperation\<rparr>\<rparr>)"
  using isSafeToQuit_guard [of testModel]
    isSafeToQuit_guard [of "testModel\<lparr>stacked := Some helppage_New\<rparr>"]
    isSafeToQuit_guard [of "testModel\<lparr>oplog := Some testOplog\<rparr>"]
    isSafeToQuit_guard [of "testModel\<lparr>revisions :=
        (revisions testModel)\<lparr>CurrentOperation := op_details testOperation\<rparr>\<rparr>"]
  by (simp add: testModel_def)



subsection \<open>Key routing\<close>

lemma Update_key_unfocused:
  "leader m = None \<Longrightarrow> password m = None \<Longrightarrow> diff m = None \<Longrightarrow> \<not> Editing (revsetModel m) \<Longrightarrow>
   \<not> IsFocused (status m) \<Longrightarrow> \<not> IsEditing (revisions m) \<Longrightarrow> stacked m = None \<Longrightarrow>
   Update env cfg m (tea_KeyMsg k) = updateKey env m k"
  by (simp add: Update_def handleFocusInputMessage_def)

text \<open>
  C2, as the code has it. A key event that arrives while leader mode is inactive is
  delivered to the first active surface in the order password prompt, diff view, revset
  editor in edit mode, focused status field, revisions view editing inline, stacked modal:
  \<open>Update\<close> makes exactly one call, the \<open>Update\<close> of that surface, returns its command
  and changes nothing else (for the revset editor it also sets the state to loading), so
  no later surface and no global binding sees the key. When none of the six is active the
  key is reported unhandled and goes on to the key case of \<open>Update\<close>: the sequence
  overlay, then the global bindings.
\<close>

theorem key_routing_order:
  "leader m = None \<longrightarrow>
     (password m \<noteq> None \<longrightarrow>
        Update env cfg m (tea_KeyMsg k) =
          (m\<lparr>calls := calls m @ [call_Update c_password]\<rparr>, Returned (call_Update c_password))) \<and>
     (password m = None \<and> diff m \<noteq> None \<longrightarrow>
        Update env cfg m (tea_KeyMsg k) =
          (m\<lparr>calls := calls m @ [call_Update c_diff]\<rparr>, Returned (call_Update c_diff))) \<and>
     (password m = None \<and> diff m = None \<and> Editing (revsetModel m) \<longrightarrow>
        Update env cfg m (tea_KeyMsg k) =
          (m\<lparr>state := Loading, calls := calls m @ [call_Update c_revsetModel]\<rparr>,
           Returned (call_Update c_revsetModel))) \<and>
     (password m = None \<and> diff m = None \<and> \<not> Editing (revsetModel m) \<and> IsFocused (status m) \<longrightarrow>
        Update env cfg m (tea_KeyMsg k) =
          (m\<lparr>calls := calls m @ [call_Update c_status]\<rparr>, Returned (call_Update c_status))) \<and>
     (password m = None \<and> diff m = None \<and> \<not> Editing (revsetModel m) \<and> \<not> IsFocused (status m) \<and>
      IsEditing (revisions m) \<longrightarrow>
        Update env cfg m (tea_KeyMsg k) =
          (m\<lparr>calls := calls m @ [call_Update c_revisions]\<rparr>, Returned (call_Update c_revisions))) \<and>
     (password m = None \<and> diff m = None \<and> \<not> Editing (revsetModel m) \<and> \<not> IsFocused (status m) \<and>
      \<not> IsEditing (revisions m) \<and> stacked m \<noteq> None \<longrightarrow>
        Update env cfg m (tea_KeyMsg k) =
          (m\<lparr>calls := calls m @ [call_Update c_stacked]\<rparr>, Returned (call_Update c_stacked))) \<and>
     (password m = None \<and> diff m = None \<and> \<not> Editing (revsetModel m) \<and> \<not> IsFocused (status m) \<and>
      \<not> IsEditing (revisions m) \<and> stacked m = None \<longrightarrow>
        handleFocusInputMessage m (tea_KeyMsg k) = ((m, NilCmd), False) \<and>
        Update env cfg m (tea_KeyMsg k) = updateKey env m k)"
  by (simp add: Update_def handleFocusInputMessage_def sub_Update_def)

theorem key_routing_order_witness:
  "Update testEnv testConfig testModelEditing (tea_KeyMsg ''a'') =
     (testModelEditing\<lparr>calls := [call_Update c_revisions]\<rparr>, Returned (call_Update c_revisions)) \<and>
   Update testEnv testConfig (testModel\<lparr>stacked := Some helppage_New\<rparr>) (tea_KeyMsg ''a'') =
     (testModel\<lparr>stacked := Some helppage_New, calls := [call_Update c_stacked]\<rparr>,
      Returned (call_Update c_stacked))"
  using key_routing_order [of testModelEditing testEnv testConfig "''a''"]
    key_routing_order [of "testModel\<lparr>stacked := Some helppage_New\<rparr>" testEnv testConfig "''a''"]
  by (simp add: testModelEditing_slots testModel_slots)

text \<open>
  The order of C2 as stated, without the revisions view, fails: with the revisions view
  editing inline and a stacked modal open (and nothing before them active) the key goes to
  the revisions view, not to the stacked modal.
\<close>

theorem key_routing_counterexample:
  "leader testModelEditing = None \<and> password testModelEditing = None \<and>
   diff testModelEditing = None \<and> \<not> Editing (revsetModel testModelEditing) \<and>
   \<not> IsFocused (status testModelEditing) \<and> stacked testModelEditing = Some helppage_New \<and>
   Update testEnv testConfig testModelEditing (tea_KeyMsg ''a'') =
     (testModelEditing\<lparr>calls := [call_Update c_revisions]\<rparr>, Returned (call_Update c_revisions))"
  by (simp add: Update_def handleFocusInputMessage_def sub_Update_def testModelEditing_slots)

subsection \<open>The sequence matcher\<close>

lemma shouldStartLoop_filter:
  "shouldStartLoop (SelectedItem ctx) k cs = (filter (firstChordMatches ctx k) cs \<noteq> [])"
  by (induction cs) (auto simp add: firstChordMatches_def split: list.splits)

lemma shouldStartLoop_ex:
  "shouldStartLoop it k cs =
     (\<exists>c \<in> set cs. Sequence c \<noteq> [] \<and> key_Matches k [hd (Sequence c)] \<and> IsApplicableTo c it)"
  by (induction cs) (auto split: list.splits)

lemma bc_Update_overlay:
  "sequenceOverlay (fst (bc_Update c st)) = sequenceOverlay (fst st)"
  by (cases st) (simp add: bc_Update_def)

lemma bc_scriptRunner_overlay:
  "sequenceOverlay (fst (bc_scriptRunner env msg st)) = sequenceOverlay (fst st)"
  by (cases st) (simp add: bc_scriptRunner_def split: option.splits prod.splits)

lemma broadcast_overlay:
  "sequenceOverlay (fst (broadcast env m msg cmds)) = sequenceOverlay m"
  by (simp add: broadcast_def Let_def bc_Update_overlay bc_scriptRunner_overlay)

lemma globalKey_overlay:
  "sequenceOverlay (fst (globalKey env m k)) = sequenceOverlay m"
  by (simp add: globalKey_def Let_def broadcast_overlay sub_Init_def openStacked_def
        openStackedBatch_def split: option.splits)

lemma updateKey_idle_start:
  assumes "sequenceOverlay m = None" "shouldStartSequenceOverlay m k"
  shows "updateKey env m k =
     (m\<lparr>sequenceOverlay := Some \<lparr>prefix = [k],
           candidates = filter (firstChordMatches (context' m) k) (SortedCustomCommands (context' m)),
           deadline = 1\<rparr>\<rparr>,
      SequenceTimeout_timer 1)"
proof -
  from assms(2) have ne: "filter (firstChordMatches (context' m) k) (SortedCustomCommands (context' m)) \<noteq> []"
    by (simp add: shouldStartSequenceOverlay_def shouldStartLoop_filter)
  show ?thesis
    using assms ne
    by (simp add: updateKey_def handleCustomCommandSequence_def ensureSequenceOverlay_def
          NewSequenceOverlay_def HandleKey_def remainingCandidates_def Let_def)
qed

lemma updateKey_idle_pass:
  assumes "sequenceOverlay m = None" "\<not> shouldStartSequenceOverlay m k"
  shows "updateKey env m k = globalKey env m k"
  using assms
  by (simp add: updateKey_def handleCustomCommandSequence_def ensureSequenceOverlay_def)

lemma updateKey_collecting_miss:
  assumes "sequenceOverlay m = Some ov" "remainingCandidates (context' m) ov k = []"
  shows "updateKey env m k = (m\<lparr>sequenceOverlay := None\<rparr>, NilCmd)"
  using assms
  by (simp add: updateKey_def handleCustomCommandSequence_def ensureSequenceOverlay_def
        HandleKey_def Let_def)

lemma testModel_shouldStart:
  "shouldStartSequenceOverlay testModel ''w''"
  "shouldStartSequenceOverlay testModelDiff ''w''"
  by (simp_all only: shouldStartSequenceOverlay_def shouldStartLoop_filter)
     (simp_all add: testModel_slots testModelDiff_def testCommand_chords)

lemma testModelDiff_slots:
  "leader testModelDiff = None" "password testModelDiff = None"
  "diff testModelDiff = Some (testDiff ''d'')" "sequenceOverlay testModelDiff = None"
  "calls testModelDiff = []"
  by (simp_all add: testModelDiff_def testModel_slots)

lemma testModelCollecting_slots:
  "leader testModelCollecting = None" "password testModelCollecting = None"
  "diff testModelCollecting = None" "Editing (revsetModel testModelCollecting) = False"
  "IsFocused (status testModelCollecting) = False"
  "IsEditing (revisions testModelCollecting) = False"
  "stacked testModelCollecting = None" "context' testModelCollecting = testContext"
  "sequenceOverlay testModelCollecting = Some testOverlay"
  by (simp_all add: testModelCollecting_def testModel_slots)

lemma testOverlay_miss: "remainingCandidates testContext testOverlay ''z'' = []"
  by (simp add: remainingCandidates_def testOverlay_def testCommand_chords)

text \<open>
  C3, as the code has it. Take a key event that no focused surface captures (leader
  mode inactive, no password prompt, no diff view, revset editor not editing, status field
  not focused, revisions view not editing inline, no stacked modal). If it arrives while
  the matcher is idle (the overlay is nil), the matcher starts collecting and consumes the
  key, \<open>Update\<close> changing nothing but the overlay and returning only the deadline timer,
  if and only if some custom command has a non-empty chord sequence whose first chord
  matches the key and whose applicability predicate holds for the selected item;
  otherwise the overlay stays nil and the key is handled by the global bindings. If it
  arrives while the matcher is collecting and no remaining candidate matches it, the
  overlay becomes nil, no command is returned and nothing else is called: the key is
  swallowed.
\<close>

theorem sequence_matcher_routing:
  "leader m = None \<and> password m = None \<and> diff m = None \<and> \<not> Editing (revsetModel m) \<and>
   \<not> IsFocused (status m) \<and> \<not> IsEditing (revisions m) \<and> stacked m = None \<longrightarrow>
     (sequenceOverlay m = None \<longrightarrow>
        (shouldStartSequenceOverlay m k \<longleftrightarrow>
           (\<exists>c \<in> set (SortedCustomCommands (context' m)).
              Sequence c \<noteq> [] \<and> key_Matches k [hd (Sequence c)] \<and>
              IsApplicableTo c (SelectedItem (context' m)))) \<and>
        (shouldStartSequenceOverlay m k \<longrightarrow>
           Update env cfg m (tea_KeyMsg k) =
             (m\<lparr>sequenceOverlay := Some \<lparr>prefix = [k],
                   candidates = filter (firstChordMatches (context' m) k)
                                  (SortedCustomCommands (context' m)),
                   deadline = 1\<rparr>\<rparr>,
              SequenceTimeout_timer 1)) \<and>
        (\<not> shouldStartSequenceOverlay m k \<longrightarrow>
           Update env cfg m (tea_KeyMsg k) = globalKey env m k) \<and>
        (sequenceOverlay (fst (Update env cfg m (tea_KeyMsg k))) \<noteq> None \<longleftrightarrow>
           shouldStartSequenceOverlay m k)) \<and>
     (\<forall>ov. sequenceOverlay m = Some ov \<and> remainingCandidates (context' m) ov k = [] \<longrightarrow>
        Update env cfg m (tea_KeyMsg k) = (m\<lparr>sequenceOverlay := None\<rparr>, NilCmd))"
proof (intro impI)
  assume nf: "leader m = None \<and> password m = None \<and> diff m = None \<and> \<not> Editing (revsetModel m) \<and>
   \<not> IsFocused (status m) \<and> \<not> IsEditing (revisions m) \<and> stacked m = None"
  then have upd: "Update env cfg m (tea_KeyMsg k) = updateKey env m k"
    by (simp add: Update_key_unfocused)
  have ex: "shouldStartSequenceOverlay m k \<longleftrightarrow>
           (\<exists>c \<in> set (SortedCustomCommands (context' m)).
              Sequence c \<noteq> [] \<and> key_Matches k [hd (Sequence c)] \<and>
              IsApplicableTo c (SelectedItem (context' m)))"
    by (simp only: shouldStartSequenceOverlay_def shouldStartLoop_ex)
  have start: "sequenceOverlay m = None \<longrightarrow> shouldStartSequenceOverlay m k \<longrightarrow>
           Update env cfg m (tea_KeyMsg k) =
             (m\<lparr>sequenceOverlay := Some \<lparr>prefix = [k],
                   candidates = filter (firstChordMatches (context' m) k)
                                  (SortedCustomCommands (context' m)),
                   deadline = 1\<rparr>\<rparr>,
              SequenceTimeout_timer 1)"
    using upd updateKey_idle_start [of m k env] by simp
  have pass: "sequenceOverlay m = None \<longrightarrow> \<not> shouldStartSequenceOverlay m k \<longrightarrow>
           Update env cfg m (tea_KeyMsg k) = globalKey env m k"
    using upd updateKey_idle_pass [of m k env] by simp
  have iff: "sequenceOverlay m = None \<longrightarrow>
        (sequenceOverlay (fst (Update env cfg m (tea_KeyMsg k))) \<noteq> None \<longleftrightarrow>
           shouldStartSequenceOverlay m k)"
  proof (cases "shouldStartSequenceOverlay m k")
    case True
    with start show ?thesis by simp
  next
    case False
    with pass show ?thesis by (simp add: globalKey_overlay)
  qed
  have miss: "\<forall>ov. sequenceOverlay m = Some ov \<and> remainingCandidates (context' m) ov k = [] \<longrightarrow>
        Update env cfg m (tea_KeyMsg k) = (m\<lparr>sequenceOverlay := None\<rparr>, NilCmd)"
    using upd updateKey_collecting_miss [of m _ k env] by simp
  from ex start pass iff miss
  show "(sequenceOverlay m = None \<longrightarrow>
        (shouldStartSequenceOverlay m k \<longleftrightarrow>
           (\<exists>c \<in> set (SortedCustomCommands (context' m)).
              Sequence c \<noteq> [] \<and> key_Matches k [hd (Sequence c)] \<and>
              IsApplicableTo c (SelectedItem (context' m)))) \<and>
        (shouldStartSequenceOverlay m k \<longrightarrow>
           Update env cfg m (tea_KeyMsg k) =
             (m\<lparr>sequenceOverlay := Some \<lparr>prefix = [k],
                   candidates = filter (firstChordMatches (context' m) k)
                                  (SortedCustomCommands (context' m)),
                   deadline = 1\<rparr>\<rparr>,
              SequenceTimeout_timer 1)) \<and>
        (\<not> shouldStartSequenceOverlay m k \<longrightarrow>
           Update env cfg m (tea_KeyMsg k) = globalKey env m k) \<and>
        (sequenceOverlay (fst (Update env cfg m (tea_KeyMsg k))) \<noteq> None \<longleftrightarrow>
           shouldStartSequenceOverlay m k)) \<and>
     (\<forall>ov. sequenceOverlay m = Some ov \<and> remainingCandidates (context' m) ov k = [] \<longrightarrow>
        Update env cfg m (tea_KeyMsg k) = (m\<lparr>sequenceOverlay := None\<rparr>, NilCmd))"
    by blast
qed

theorem sequence_matcher_routing_witness:
  "Update testEnv testConfig testModel (tea_KeyMsg ''w'') =
     (testModel\<lparr>sequenceOverlay :=
        Some \<lparr>prefix = [''w''], candidates = [testCommand], deadline = 1\<rparr>\<rparr>,
      SequenceTimeout_timer 1) \<and>
   Update testEnv testConfig testModelCollecting (tea_KeyMsg ''z'') =
     (testModelCollecting\<lparr>sequenceOverlay := None\<rparr>, NilCmd)"
  using sequence_matcher_routing [of testModel "''w''" testEnv testConfig]
    sequence_matcher_routing [of testModelCollecting "''z''" testEnv testConfig]
  by (simp add: testModel_slots testModelCollecting_slots testModel_shouldStart
        testCommand_chords testOverlay_miss)

text \<open>
  C3 as stated, for every key event, fails: with a diff view open and the matcher idle, a
  key that matches the first chord of an applicable command goes to the diff view and the
  matcher does not start collecting; with a diff view open and the matcher collecting, a
  key that matches no remaining candidate goes to the diff view and the matcher goes on
  collecting.
\<close>

theorem sequence_matcher_counterexample:
  "sequenceOverlay testModelDiff = None \<and>
   shouldStartSequenceOverlay testModelDiff ''w'' \<and>
   Update testEnv testConfig testModelDiff (tea_KeyMsg ''w'') =
     (testModelDiff\<lparr>calls := [call_Update c_diff]\<rparr>, Returned (call_Update c_diff)) \<and>
   sequenceOverlay (fst (Update testEnv testConfig testModelDiff (tea_KeyMsg ''w''))) = None \<and>
   sequenceOverlay testModelCollectingDiff = Some testOverlay \<and>
   remainingCandidates (context' testModelCollectingDiff) testOverlay ''z'' = [] \<and>
   Update testEnv testConfig testModelCollectingDiff (tea_KeyMsg ''z'') =
     (testModelCollectingDiff\<lparr>calls := [call_Update c_diff]\<rparr>, Returned (call_Update c_diff)) \<and>
   sequenceOverlay (fst (Update testEnv testConfig testModelCollectingDiff (tea_KeyMsg ''z'')))
     = Some testOverlay"
proof -
  have s: "leader testModelCollectingDiff = None" "password testModelCollectingDiff = None"
    "diff testModelCollectingDiff = Some (testDiff ''d'')" "calls testModelCollectingDiff = []"
    "sequenceOverlay testModelCollectingDiff = Some testOverlay"
    "context' testModelCollectingDiff = testContext"
    by (simp_all add: testModelCollectingDiff_def testModel_slots)
  show ?thesis
    by (simp add: Update_def handleFocusInputMessage_def sub_Update_def testModel_shouldStart
          testModelDiff_slots s testOverlay_miss)
qed

subsection \<open>Mouse routing\<close>

lemma Update_mouse_leader:
  "leader m \<noteq> None \<Longrightarrow>
     Update env cfg m (tea_MouseMsg mm) =
       (m\<lparr>calls := calls m @ [call_Update c_leader]\<rparr>, Returned (call_Update c_leader))"
  by (simp add: Update_def handleFocusInputMessage_def sub_Update_def)

lemma Update_mouse: "leader m = None \<Longrightarrow> Update env cfg m (tea_MouseMsg mm) = updateMouse env m mm"
  by (simp add: Update_def handleFocusInputMessage_def)

lemma findViewAt_order:
  "(findViewAt m x y = Some v_diff \<longleftrightarrow> (\<exists>d. diff m = Some d \<and> In (x, y) (Frame d))) \<and>
   (findViewAt m x y = Some v_oplog \<longleftrightarrow>
      \<not> (\<exists>d. diff m = Some d \<and> In (x, y) (Frame d)) \<and>
      (\<exists>l. oplog m = Some l \<and> In (x, y) (Frame l))) \<and>
   (findViewAt m x y = Some v_revisions \<longleftrightarrow>
      \<not> (\<exists>d. diff m = Some d \<and> In (x, y) (Frame d)) \<and>
      oplog m = None \<and> In (x, y) (Frame (revisions m))) \<and>
   (findViewAt m x y = Some v_previewModel \<longleftrightarrow>
      \<not> (\<exists>d. diff m = Some d \<and> In (x, y) (Frame d)) \<and>
      \<not> (\<exists>l. oplog m = Some l \<and> In (x, y) (Frame l)) \<and>
      \<not> (oplog m = None \<and> In (x, y) (Frame (revisions m))) \<and>
      Visible (previewModel m) \<and> In (x, y) (Frame (previewModel m)))"
  by (cases "diff m"; cases "oplog m") (auto simp add: findViewAt_def Let_def)

lemma mouseHit_cases:
  "(findViewAt m (X mm) (Y mm) = None \<longrightarrow> mouseHit env m mm = (m, NilCmd)) \<and>
   (\<forall>v. findViewAt m (X mm) (Y mm) = Some v \<longrightarrow>
      (\<not> (implementsDraggable env v \<and> Action mm = MouseActionPress \<and>
           Button mm = MouseButtonLeft) \<longrightarrow>
         mouseHit env m mm =
           (m\<lparr>calls := calls m @ [call_Update (view_component v)]\<rparr>,
            Returned (call_Update (view_component v)))) \<and>
      (implementsDraggable env v \<and> Action mm = MouseActionPress \<and>
       Button mm = MouseButtonLeft \<and> DragStart env v (X mm) (Y mm) \<longrightarrow>
         mouseHit env m mm =
           (m\<lparr>dragTarget := Some v,
               calls := calls m @ [call_DragStart v (X mm) (Y mm)]\<rparr>, NilCmd)) \<and>
      (implementsDraggable env v \<and> Action mm = MouseActionPress \<and>
       Button mm = MouseButtonLeft \<and> \<not> DragStart env v (X mm) (Y mm) \<longrightarrow>
         mouseHit env m mm =
           (m\<lparr>calls := calls m @ [call_DragStart v (X mm) (Y mm),
                                     call_Update (view_component v)]\<rparr>,
            Returned (call_Update (view_component v)))))"
  by (simp add: mouseHit_def sub_Update_def Let_def)

lemma testMouse_fields:
  "X (testMouse x y a b) = x" "Y (testMouse x y a b) = y"
  "Action (testMouse x y a b) = a" "Button (testMouse x y a b) = b"
  by (simp_all add: testMouse_def)

lemma testEnv_drag:
  "IsDragging testEnv v" "DragStart testEnv v x y"
  "implementsDraggable testEnv v = (v = v_previewModel)"
  by (simp_all add: testEnv_def)

lemma testModel_hits:
  "findViewAt testModel 10 5 = Some v_revisions"
  "findViewAt testModel 70 5 = Some v_previewModel"
  "findViewAt testModel 10 0 = None"
  "findViewAt testModelHelp 10 5 = Some v_revisions"
  by (simp_all add: findViewAt_def In_def testModelHelp_def testModel_def testRect_def)

lemma testModelDrag_slots:
  "leader testModelDrag = None" "stacked testModelDrag = None"
  "dragTarget testModelDrag = Some v_previewModel" "calls testModelDrag = []"
  "leader testModelHelp = None" "stacked testModelHelp = Some helppage_New"
  "leader testModelHelpDrag = None" "stacked testModelHelpDrag = Some helppage_New"
  "dragTarget testModelHelpDrag = Some v_previewModel"
  by (simp_all add: testModelDrag_def testModelHelp_def testModelHelpDrag_def testModel_slots)

text \<open>
  C5, as the code has it. While leader mode is active a mouse event goes to the leader.
  Otherwise, if a stacked modal is open the event is dropped. Otherwise, if a drag is in
  progress (a drag target is set and reports that it is dragging), a motion event goes to
  \<open>DragMove\<close> and a release event to \<open>DragEnd\<close> of the drag target and to nothing
  else, and the release clears the drag target; a press during a drag, and any event when
  no drag is in progress, is hit-tested, a drag target that no longer drags being cleared
  first. The hit test takes the first of: the diff view if open and containing the point,
  the op-log view if open and containing the point, the revisions view if the op-log view
  is closed and it contains the point, the preview pane if visible and containing the
  point. An event that hits nothing is dropped; a left-button press on a hit view that is
  draggable calls its \<open>DragStart\<close>, which, if it accepts, makes the view the drag target
  without delivering the event; in every other case the event is delivered to the
  \<open>Update\<close> of the hit view.
\<close>

theorem mouse_routing:
  "(leader m \<noteq> None \<longrightarrow>
      Update env cfg m (tea_MouseMsg mm) =
        (m\<lparr>calls := calls m @ [call_Update c_leader]\<rparr>, Returned (call_Update c_leader))) \<and>
   (leader m = None \<and> stacked m \<noteq> None \<longrightarrow> Update env cfg m (tea_MouseMsg mm) = (m, NilCmd)) \<and>
   (leader m = None \<and> stacked m = None \<longrightarrow>
      (\<forall>t. dragTarget m = Some t \<and> IsDragging env t \<and> Action mm = MouseActionMotion \<longrightarrow>
         Update env cfg m (tea_MouseMsg mm) =
           (m\<lparr>calls := calls m @ [call_DragMove t (X mm) (Y mm)]\<rparr>,
            Returned (call_DragMove t (X mm) (Y mm)))) \<and>
      (\<forall>t. dragTarget m = Some t \<and> IsDragging env t \<and> Action mm = MouseActionRelease \<longrightarrow>
         Update env cfg m (tea_MouseMsg mm) =
           (m\<lparr>dragTarget := None, calls := calls m @ [call_DragEnd t (X mm) (Y mm)]\<rparr>,
            Returned (call_DragEnd t (X mm) (Y mm)))) \<and>
      (\<forall>t. dragTarget m = Some t \<and> IsDragging env t \<and> Action mm = MouseActionPress \<longrightarrow>
         Update env cfg m (tea_MouseMsg mm) = mouseHit env m mm) \<and>
      (\<forall>t. dragTarget m = Some t \<and> \<not> IsDragging env t \<longrightarrow>
         Update env cfg m (tea_MouseMsg mm) = mouseHit env (m\<lparr>dragTarget := None\<rparr>) mm) \<and>
      (dragTarget m = None \<longrightarrow> Update env cfg m (tea_MouseMsg mm) = mouseHit env m mm)) \<and>
   (findViewAt h (X mm) (Y mm) = None \<longrightarrow> mouseHit env h mm = (h, NilCmd)) \<and>
   (\<forall>v. findViewAt h (X mm) (Y mm) = Some v \<longrightarrow>
      (\<not> (implementsDraggable env v \<and> Action mm = MouseActionPress \<and>
           Button mm = MouseButtonLeft) \<longrightarrow>
         mouseHit env h mm =
           (h\<lparr>calls := calls h @ [call_Update (view_component v)]\<rparr>,
            Returned (call_Update (view_component v)))) \<and>
      (implementsDraggable env v \<and> Action mm = MouseActionPress \<and>
       Button mm = MouseButtonLeft \<and> DragStart env v (X mm) (Y mm) \<longrightarrow>
         mouseHit env h mm =
           (h\<lparr>dragTarget := Some v,
               calls := calls h @ [call_DragStart v (X mm) (Y mm)]\<rparr>, NilCmd)) \<and>
      (implementsDraggable env v \<and> Action mm = MouseActionPress \<and>
       Button mm = MouseButtonLeft \<and> \<not> DragStart env v (X mm) (Y mm) \<longrightarrow>
         mouseHit env h mm =
           (h\<lparr>calls := calls h @ [call_DragStart v (X mm) (Y mm),
                                     call_Update (view_component v)]\<rparr>,
            Returned (call_Update (view_component v))))) \<and>
   (findViewAt h x y = Some v_diff \<longleftrightarrow> (\<exists>d. diff h = Some d \<and> In (x, y) (Frame d))) \<and>
   (findViewAt h x y = Some v_oplog \<longleftrightarrow>
      \<not> (\<exists>d. diff h = Some d \<and> In (x, y) (Frame d)) \<and>
      (\<exists>l. oplog h = Some l \<and> In (x, y) (Frame l))) \<and>
   (findViewAt h x y = Some v_revisions \<longleftrightarrow>
      \<not> (\<exists>d. diff h = Some d \<and> In (x, y) (Frame d)) \<and>
      oplog h = None \<and> In (x, y) (Frame (revisions h))) \<and>
   (findViewAt h x y = Some v_previewModel \<longleftrightarrow>
      \<not> (\<exists>d. diff h = Some d \<and> In (x, y) (Frame d)) \<and>
      \<not> (\<exists>l. oplog h = Some l \<and> In (x, y) (Frame l)) \<and>
      \<not> (oplog h = None \<and> In (x, y) (Frame (revisions h))) \<and>
      Visible (previewModel h) \<and> In (x, y) (Frame (previewModel h)))"
proof -
  have a: "leader m \<noteq> None \<longrightarrow>
      Update env cfg m (tea_MouseMsg mm) =
        (m\<lparr>calls := calls m @ [call_Update c_leader]\<rparr>, Returned (call_Update c_leader))"
    by (simp add: Update_mouse_leader)
  have b: "leader m = None \<and> stacked m \<noteq> None \<longrightarrow> Update env cfg m (tea_MouseMsg mm) = (m, NilCmd)"
    by (auto simp add: Update_mouse updateMouse_def)
  have c: "leader m = None \<and> stacked m = None \<longrightarrow>
      (\<forall>t. dragTarget m = Some t \<and> IsDragging env t \<and> Action mm = MouseActionMotion \<longrightarrow>
         Update env cfg m (tea_MouseMsg mm) =
           (m\<lparr>calls := calls m @ [call_DragMove t (X mm) (Y mm)]\<rparr>,
            Returned (call_DragMove t (X mm) (Y mm)))) \<and>
      (\<forall>t. dragTarget m = Some t \<and> IsDragging env t \<and> Action mm = MouseActionRelease \<longrightarrow>
         Update env cfg m (tea_MouseMsg mm) =
           (m\<lparr>dragTarget := None, calls := calls m @ [call_DragEnd t (X mm) (Y mm)]\<rparr>,
            Returned (call_DragEnd t (X mm) (Y mm)))) \<and>
      (\<forall>t. dragTarget m = Some t \<and> IsDragging env t \<and> Action mm = MouseActionPress \<longrightarrow>
         Update env cfg m (tea_MouseMsg mm) = mouseHit env m mm) \<and>
      (\<forall>t. dragTarget m = Some t \<and> \<not> IsDragging env t \<longrightarrow>
         Update env cfg m (tea_MouseMsg mm) = mouseHit env (m\<lparr>dragTarget := None\<rparr>) mm) \<and>
      (dragTarget m = None \<longrightarrow> Update env cfg m (tea_MouseMsg mm) = mouseHit env m mm)"
    by (auto simp add: Update_mouse updateMouse_def)
  note d = mouseHit_cases [of h mm env]
  note e = findViewAt_order [of h x y]
  from a b c d e show ?thesis by (intro conjI) (elim conjE, assumption)+
qed

theorem mouse_routing_witness:
  "Update testEnv testConfig testModelDrag
     (tea_MouseMsg (testMouse 30 5 MouseActionMotion MouseButtonNone)) =
     (testModelDrag\<lparr>calls := [call_DragMove v_previewModel 30 5]\<rparr>,
      Returned (call_DragMove v_previewModel 30 5)) \<and>
   Update testEnv testConfig testModelDrag
     (tea_MouseMsg (testMouse 30 5 MouseActionRelease MouseButtonLeft)) =
     (testModelDrag\<lparr>dragTarget := None, calls := [call_DragEnd v_previewModel 30 5]\<rparr>,
      Returned (call_DragEnd v_previewModel 30 5)) \<and>
   Update testEnv testConfig testModel
     (tea_MouseMsg (testMouse 10 5 MouseActionPress MouseButtonLeft)) =
     (testModel\<lparr>calls := [call_Update c_revisions]\<rparr>, Returned (call_Update c_revisions)) \<and>
   Update testEnv testConfig testModel
     (tea_MouseMsg (testMouse 70 5 MouseActionPress MouseButtonLeft)) =
     (testModel\<lparr>dragTarget := Some v_previewModel,
        calls := [call_DragStart v_previewModel 70 5]\<rparr>, NilCmd) \<and>
   Update testEnv testConfig testModel
     (tea_MouseMsg (testMouse 10 0 MouseActionPress MouseButtonLeft)) = (testModel, NilCmd) \<and>
   Update testEnv testConfig testModelHelp
     (tea_MouseMsg (testMouse 10 5 MouseActionPress MouseButtonLeft)) = (testModelHelp, NilCmd)"
  using
    mouse_routing [where m = testModelDrag and env = testEnv and cfg = testConfig
      and mm = "testMouse 30 5 MouseActionMotion MouseButtonNone" and h = testModel]
    mouse_routing [where m = testModelDrag and env = testEnv and cfg = testConfig
      and mm = "testMouse 30 5 MouseActionRelease MouseButtonLeft" and h = testModel]
    mouse_routing [where m = testModel and env = testEnv and cfg = testConfig
      and mm = "testMouse 10 5 MouseActionPress MouseButtonLeft" and h = testModel]
    mouse_routing [where m = testModel and env = testEnv and cfg = testConfig
      and mm = "testMouse 70 5 MouseActionPress MouseButtonLeft" and h = testModel]
    mouse_routing [where m = testModel and env = testEnv and cfg = testConfig
      and mm = "testMouse 10 0 MouseActionPress MouseButtonLeft" and h = testModel]
    mouse_routing [where m = testModelHelp and env = testEnv and cfg = testConfig
      and mm = "testMouse 10 5 MouseActionPress MouseButtonLeft" and h = testModel]
  by (simp add: testModel_slots testModelDrag_slots testMouse_fields testEnv_drag
        testModel_hits view_component_def)

text \<open>
  C5 as stated fails where a stacked modal is open: a press on a point of the revisions
  view is dropped instead of delivered, and a motion event during a drag does not reach
  the drag target. It fails too where leader mode is active: a press on a point of the
  revisions view goes to the leader.
\<close>

theorem mouse_routing_counterexample:
  "leader testModelHelp = None \<and>
   findViewAt testModelHelp 10 5 = Some v_revisions \<and>
   Update testEnv testConfig testModelHelp
     (tea_MouseMsg (testMouse 10 5 MouseActionPress MouseButtonLeft)) = (testModelHelp, NilCmd) \<and>
   dragTarget testModelHelpDrag = Some v_previewModel \<and>
   IsDragging testEnv v_previewModel \<and>
   Update testEnv testConfig testModelHelpDrag
     (tea_MouseMsg (testMouse 30 5 MouseActionMotion MouseButtonNone)) = (testModelHelpDrag, NilCmd) \<and>
   findViewAt testModelLeader 10 5 = Some v_revisions \<and>
   Update testEnv testConfig testModelLeader
     (tea_MouseMsg (testMouse 10 5 MouseActionPress MouseButtonLeft)) =
     (testModelLeader\<lparr>calls := [call_Update c_leader]\<rparr>, Returned (call_Update c_leader))"
proof -
  have l: "leader testModelLeader = Some leader_New" "calls testModelLeader = []"
    "findViewAt testModelLeader 10 5 = Some v_revisions"
    by (simp_all add: testModelLeader_def testModel_slots findViewAt_def In_def testModel_def
          testRect_def)
  show ?thesis
    by (simp add: Update_def handleFocusInputMessage_def updateMouse_def testModelDrag_slots
          testModel_hits testEnv_drag sub_Update_def l)
qed

subsection \<open>The render wrapper\<close>

lemma wrapper_Update_other:
  "msg \<noteq> frameTickMsg \<Longrightarrow>
     render (fst (wrapper_Update env cfg w msg)) = render w \<and>
     cachedFrame (fst (wrapper_Update env cfg w msg)) = cachedFrame w \<and>
     scheduledNextFrame (fst (wrapper_Update env cfg w msg)) \<and>
     ui (fst (wrapper_Update env cfg w msg)) = fst (Update env cfg (ui w) msg) \<and>
     snd (wrapper_Update env cfg w msg) =
       (if scheduledNextFrame w then snd (Update env cfg (ui w) msg)
        else tea_Batch [snd (Update env cfg (ui w) msg), tea_Tick 8 frameTickMsg_tick])"
  by (cases "Update env cfg (ui w) msg") (simp add: wrapper_Update_def)

lemma wrapper_Updates_cache:
  "frameTickMsg \<notin> set msgs \<Longrightarrow>
     render (wrapper_Updates env cfg w msgs) = render w \<and>
     cachedFrame (wrapper_Updates env cfg w msgs) = cachedFrame w"
proof (induction msgs arbitrary: w)
  case Nil
  then show ?case by simp
next
  case (Cons msg msgs)
  then have ne: "msg \<noteq> frameTickMsg" and rest: "frameTickMsg \<notin> set msgs" by auto
  from Cons.IH [OF rest, of "fst (wrapper_Update env cfg w msg)"] wrapper_Update_other [OF ne, of env cfg w]
  show ?case by simp
qed

lemma wrapper_View_after:
  "render (fst (wrapper_View view w)) = False \<and>
   cachedFrame (fst (wrapper_View view w)) = snd (wrapper_View view w)"
  by (cases "view (ui w)") (simp add: wrapper_View_def)

lemma wrapper_View_cached: "\<not> render w \<Longrightarrow> wrapper_View view w = (w, cachedFrame w)"
  by (simp add: wrapper_View_def)

text \<open>
  C6. An event other than the frame tick leaves \<open>render\<close> and the cached frame as
  they are, passes the event to the model, and leaves a frame tick scheduled: when none
  was scheduled the command is the batch of the model's command and one tick of 8 ms,
  otherwise just the model's command. The frame tick sets \<open>render\<close> and clears the
  schedule flag. \<open>View\<close> recomputes the frame only when \<open>render\<close> is set, and clears
  it; otherwise it returns the cached frame and changes nothing. Hence after one call of
  \<open>View\<close>, and any events without a frame tick, the next call of \<open>View\<close> returns the
  same frame without recomputing it.
\<close>

theorem render_cache:
  "(msg \<noteq> frameTickMsg \<longrightarrow>
      render (fst (wrapper_Update env cfg w msg)) = render w \<and>
      cachedFrame (fst (wrapper_Update env cfg w msg)) = cachedFrame w \<and>
      scheduledNextFrame (fst (wrapper_Update env cfg w msg)) \<and>
      ui (fst (wrapper_Update env cfg w msg)) = fst (Update env cfg (ui w) msg) \<and>
      snd (wrapper_Update env cfg w msg) =
        (if scheduledNextFrame w then snd (Update env cfg (ui w) msg)
         else tea_Batch [snd (Update env cfg (ui w) msg), tea_Tick 8 frameTickMsg_tick])) \<and>
   wrapper_Update env cfg w frameTickMsg =
     (w\<lparr>render := True, scheduledNextFrame := False\<rparr>, NilCmd) \<and>
   (\<not> render w \<longrightarrow> wrapper_View view w = (w, cachedFrame w)) \<and>
   (render w \<longrightarrow>
      wrapper_View view w =
        (w\<lparr>ui := snd (view (ui w)), cachedFrame := fst (view (ui w)), render := False\<rparr>,
         fst (view (ui w)))) \<and>
   (frameTickMsg \<notin> set msgs \<longrightarrow>
      wrapper_View view (wrapper_Updates env cfg (fst (wrapper_View view w)) msgs) =
        (wrapper_Updates env cfg (fst (wrapper_View view w)) msgs, snd (wrapper_View view w)))"
proof -
  have a: "msg \<noteq> frameTickMsg \<longrightarrow>
      render (fst (wrapper_Update env cfg w msg)) = render w \<and>
      cachedFrame (fst (wrapper_Update env cfg w msg)) = cachedFrame w \<and>
      scheduledNextFrame (fst (wrapper_Update env cfg w msg)) \<and>
      ui (fst (wrapper_Update env cfg w msg)) = fst (Update env cfg (ui w) msg) \<and>
      snd (wrapper_Update env cfg w msg) =
        (if scheduledNextFrame w then snd (Update env cfg (ui w) msg)
         else tea_Batch [snd (Update env cfg (ui w) msg), tea_Tick 8 frameTickMsg_tick])"
    using wrapper_Update_other [of msg env cfg w] by blast
  have b: "wrapper_Update env cfg w frameTickMsg =
     (w\<lparr>render := True, scheduledNextFrame := False\<rparr>, NilCmd)"
    by (simp add: wrapper_Update_def)
  have c: "\<not> render w \<longrightarrow> wrapper_View view w = (w, cachedFrame w)"
    by (simp add: wrapper_View_def)
  have d: "render w \<longrightarrow>
      wrapper_View view w =
        (w\<lparr>ui := snd (view (ui w)), cachedFrame := fst (view (ui w)), render := False\<rparr>,
         fst (view (ui w)))"
    by (cases "view (ui w)") (simp add: wrapper_View_def)
  have e: "frameTickMsg \<notin> set msgs \<longrightarrow>
      wrapper_View view (wrapper_Updates env cfg (fst (wrapper_View view w)) msgs) =
        (wrapper_Updates env cfg (fst (wrapper_View view w)) msgs, snd (wrapper_View view w))"
  proof
    assume nt: "frameTickMsg \<notin> set msgs"
    let ?w1 = "fst (wrapper_View view w)"
    let ?w2 = "wrapper_Updates env cfg ?w1 msgs"
    from wrapper_Updates_cache [OF nt, of env cfg ?w1] wrapper_View_after [of view w]
    have "\<not> render ?w2" and "cachedFrame ?w2 = snd (wrapper_View view w)" by simp_all
    then show "wrapper_View view ?w2 = (?w2, snd (wrapper_View view w))"
      by (simp add: wrapper_View_cached)
  qed
  from a b c d e show ?thesis by (intro conjI)
qed

theorem render_cache_witness:
  "wrapper_View testView
     (wrapper_Updates testEnv testConfig (fst (wrapper_View testView testWrapper))
        [common_ToggleHelpMsg, tea_WindowSizeMsg 80 24]) =
     (wrapper_Updates testEnv testConfig (fst (wrapper_View testView testWrapper))
        [common_ToggleHelpMsg, tea_WindowSizeMsg 80 24], ''main'') \<and>
   snd (wrapper_Update testEnv testConfig testWrapper common_ToggleHelpMsg) =
     tea_Batch [snd (Update testEnv testConfig testModel common_ToggleHelpMsg),
                tea_Tick 8 frameTickMsg_tick] \<and>
   wrapper_Update testEnv testConfig testWrapper frameTickMsg =
     (testWrapper\<lparr>render := True, scheduledNextFrame := False\<rparr>, NilCmd)"
proof -
  have nt: "frameTickMsg \<notin> set [common_ToggleHelpMsg, tea_WindowSizeMsg 80 24]"
    "common_ToggleHelpMsg \<noteq> frameTickMsg"
    by simp_all
  have v: "snd (wrapper_View testView testWrapper) = ''main''"
    "scheduledNextFrame testWrapper = False" "ui testWrapper = testModel"
    by (simp_all add: wrapper_View_def testWrapper_def testView_def testModel_slots)
  from nt v
    render_cache [where msg = common_ToggleHelpMsg and env = testEnv and cfg = testConfig
      and w = testWrapper and view = testView
      and msgs = "[common_ToggleHelpMsg, tea_WindowSizeMsg 80 24]"]
  show ?thesis by simp
qed

subsection \<open>Quitting\<close>












lemma noQuit_simps [simp]:
  "noQuit (Inl p)" "noQuit (Inr (s, c)) = (\<not> emitsQuit c)"
  by (simp_all add: noQuit_def)










subsection \<open>The selected files of the details operation\<close>






end
